theory Spec2Isabelle
  imports Main
begin

section \<open>Identifiers, value types and the catalog interface\<close>

text \<open>
  The binder of \<^verbatim>\<open>src/binder/bind_node_visitor.cpp\<close> is embedded with explicit state
  passing.  The visitor object owns the pointer \<^verbatim>\<open>context_\<close> to the innermost scope frame;
  every frame points to its upper frame.  The chain is a list, innermost frame first, and
  the null pointer is the empty list.  A C++ exception leaves the visitor object as it is
  at the \<^verbatim>\<open>throw\<close>, so every visit returns the outcome together with the state at exit.
\<close>

text \<open>\<^verbatim>\<open>::tolower\<close> in the C locale: the 26 upper-case ASCII letters are mapped, every other
  character is returned as it is.\<close>

definition tolower :: "char \<Rightarrow> char" where
  "tolower c =
     (case map_of (zip ''ABCDEFGHIJKLMNOPQRSTUVWXYZ'' ''abcdefghijklmnopqrstuvwxyz'') c of
        Some l \<Rightarrow> l
      | None \<Rightarrow> c)"

text \<open>\<^verbatim>\<open>std::transform(s.begin(), s.end(), s.begin(), ::tolower)\<close>.\<close>

definition to_lower :: "string \<Rightarrow> string" where
  "to_lower s = map tolower s"

text \<open>Modelled from the spec: \<^verbatim>\<open>type/type_id.h\<close> is absent.  The value types are the ones the
  spec names (INT, written \<open>INTEGER\<close> here, TEXT and DATE), a boolean, and the invalid
  type of an unannotated node.\<close>

datatype TypeId = INVALID | BOOLEAN | INTEGER | TEXT | DATE

type_synonym db_oid_t = nat
type_synonym table_oid_t = nat
type_synonym col_oid_t = nat
type_synonym index_oid_t = nat

text \<open>Modelled from the spec: \<^verbatim>\<open>catalog/catalog_defs.h\<close> is absent.  Every OID family has a
  reserved invalid value that denotes "not found".\<close>

definition INVALID_DATABASE_OID :: db_oid_t where "INVALID_DATABASE_OID = 0"
definition INVALID_TABLE_OID :: table_oid_t where "INVALID_TABLE_OID = 0"
definition INVALID_COLUMN_OID :: col_oid_t where "INVALID_COLUMN_OID = 0"
definition INVALID_INDEX_OID :: index_oid_t where "INVALID_INDEX_OID = 0"

text \<open>A schema column as the binder reads it: \<^verbatim>\<open>Name()\<close>, \<^verbatim>\<open>Oid()\<close>, \<^verbatim>\<open>Type()\<close>.\<close>

record Column =
  Name :: string
  Oid :: col_oid_t
  Type :: TypeId

type_synonym Schema = "Column list"

text \<open>The catalog read interface (\<^verbatim>\<open>catalog::CatalogAccessor\<close>, absent) is a parameter of
  the binder: the four lookups the visitor calls.\<close>

record CatalogAccessor =
  GetDatabaseOid :: "string \<Rightarrow> db_oid_t"
  GetTableOid :: "string \<Rightarrow> table_oid_t"
  GetIndexOid :: "string \<Rightarrow> index_oid_t"
  GetSchema :: "table_oid_t \<Rightarrow> Schema"

text \<open>Modelled from the spec: \<^verbatim>\<open>Schema::GetColumn(name)\<close> is absent.  Identifiers are
  lower-cased for comparison; the visitor tests the result against
  \<^verbatim>\<open>INVALID_COLUMN_OID\<close> (line 235), so a missing column is a column with that OID.\<close>

definition GetColumn :: "Schema \<Rightarrow> string \<Rightarrow> Column" where
  "GetColumn schema name =
     (case find (\<lambda>c. to_lower (Name c) = to_lower name) schema of
        Some c \<Rightarrow> c
      | None \<Rightarrow> \<lparr>Name = name, Oid = INVALID_COLUMN_OID, Type = INVALID\<rparr>)"

text \<open>\<^verbatim>\<open>Schema::GetColumn(i)\<close> by position; outside the schema the C++ read is unchecked, the
  model returns \<open>None\<close> and the caller turns it into an error value.\<close>

definition GetColumnAt :: "Schema \<Rightarrow> nat \<Rightarrow> Column option" where
  "GetColumnAt schema i = (if i < length schema then Some (schema ! i) else None)"

section \<open>Errors\<close>

text \<open>Every error of the binder is a \<^verbatim>\<open>BINDER_EXCEPTION(message)\<close>.  The kind is the spec's
  taxonomy of the message.  The other three constructors are the unchecked C++ behaviours
  the model has to give a value to.\<close>

datatype ErrorKind =
    NotFound | AlreadyExists | AmbiguousReference | MissingAlias
  | ArityMismatch | TypeMismatch | InvalidStar | InvalidReference

datatype error =
    BINDER_EXCEPTION ErrorKind string
  | NULL_POINTER_DEREFERENCE
  | INDEX_OUT_OF_RANGE
  | ASSERTION_FAILURE string

section \<open>The parse tree\<close>

record ColumnValueExpression =
  cve_table_name :: string
  cve_column_name :: string
  cve_database_oid :: db_oid_t
  cve_table_oid :: table_oid_t
  cve_column_oid :: col_oid_t
  cve_return_value_type :: TypeId
  cve_depth :: int

record LimitDescription =
  limit :: int
  offset :: int

datatype ExpressionType =
    VALUE_CONSTANT | OPERATOR_CAST | COLUMN_VALUE | STAR | ROW_SUBQUERY
  | OPERATOR | AGGREGATE | OPERATOR_CASE_EXPR

datatype AbstractExpression =
    ConstantValueExpression TypeId string
  | TypeCastExpression TypeId "AbstractExpression list"
  | ColumnValue ColumnValueExpression
  | StarExpression
  | SubqueryExpression SelectStatement
  | OperatorExpression TypeId "AbstractExpression list"
  | AggregateExpression TypeId "AbstractExpression list"
  | CaseExpression TypeId "(AbstractExpression \<times> AbstractExpression) list"
      "AbstractExpression option"
and SelectStatement =
    SelectStatement
      (sel_columns: "AbstractExpression list")
      (sel_table: "TableRef option")
      (sel_condition: "AbstractExpression option")
      (sel_order_by: "OrderByDescription option")
      (sel_limit: "LimitDescription option")
      (sel_group_by: "GroupByDescription option")
      (sel_depth: int)
and TableRef =
    TableRef
      (tr_alias: string)
      (tr_database_name: string)
      (tr_namespace_name: string)
      (tr_table_name: string)
      (tr_select: "SelectStatement option")
      (tr_join: "JoinDefinition option")
      (tr_list: "TableRef list")
and JoinDefinition =
    JoinDefinition
      (join_left: TableRef)
      (join_right: TableRef)
      (join_condition: AbstractExpression)
and GroupByDescription =
    GroupByDescription
      (gb_columns: "AbstractExpression list")
      (gb_having: "AbstractExpression option")
and OrderByDescription =
    OrderByDescription
      (ob_exprs: "AbstractExpression option list")

fun GetExpressionType :: "AbstractExpression \<Rightarrow> ExpressionType" where
  "GetExpressionType (ConstantValueExpression t v) = VALUE_CONSTANT"
| "GetExpressionType (TypeCastExpression t cs) = OPERATOR_CAST"
| "GetExpressionType (ColumnValue c) = COLUMN_VALUE"
| "GetExpressionType StarExpression = STAR"
| "GetExpressionType (SubqueryExpression s) = ROW_SUBQUERY"
| "GetExpressionType (OperatorExpression t cs) = OPERATOR"
| "GetExpressionType (AggregateExpression t cs) = AGGREGATE"
| "GetExpressionType (CaseExpression t ws d) = OPERATOR_CASE_EXPR"

fun GetReturnValueType :: "AbstractExpression \<Rightarrow> TypeId" where
  "GetReturnValueType (ConstantValueExpression t v) = t"
| "GetReturnValueType (TypeCastExpression t cs) = t"
| "GetReturnValueType (ColumnValue c) = cve_return_value_type c"
| "GetReturnValueType StarExpression = INVALID"
| "GetReturnValueType (SubqueryExpression s) = INVALID"
| "GetReturnValueType (OperatorExpression t cs) = t"
| "GetReturnValueType (AggregateExpression t cs) = t"
| "GetReturnValueType (CaseExpression t ws d) = t"

record ColumnDefinition =
  cd_column_name :: string
  cd_value_type :: TypeId
  cd_default_expression :: "AbstractExpression option"
  cd_check_expression :: "AbstractExpression option"

section \<open>The binder context (scope frames)\<close>

text \<open>Modelled from the spec: \<^verbatim>\<open>binder/binder_context.h\<close> and its implementation are absent.
  A frame holds its regular table bindings in insertion order (alias, then database OID,
  table OID and schema snapshot), its nested bindings (alias, then the projected columns
  as name and type), the new-table bindings of a CREATE TABLE, and its depth.  The upper
  frame is the rest of the list the frame is the head of.\<close>

type_synonym TableMetadata = "db_oid_t \<times> table_oid_t \<times> Schema"

record BinderContext =
  regular_table_alias_list :: "(string \<times> TableMetadata) list"
  nested_table_alias_list :: "(string \<times> (string \<times> TypeId) list) list"
  new_table_list :: "(string \<times> ColumnDefinition list) list"
  ctx_depth :: nat

text \<open>Modelled from the spec: the constructor \<^verbatim>\<open>BinderContext(upper)\<close>.  Depth is 0 at the root
  and one more than the upper frame's otherwise.\<close>

definition new_BinderContext :: "BinderContext list \<Rightarrow> BinderContext" where
  "new_BinderContext upper =
     \<lparr>regular_table_alias_list = [], nested_table_alias_list = [], new_table_list = [],
      ctx_depth = (case upper of [] \<Rightarrow> 0 | u # _ \<Rightarrow> ctx_depth u + 1)\<rparr>"

text \<open>Modelled from the spec: a binding is stored under its alias, and an alias is unique
  within its frame: an alias already there (compared lower-cased) is overwritten in place,
  a new one is appended, which keeps the insertion order.\<close>

fun store_binding :: "string \<Rightarrow> 'v \<Rightarrow> (string \<times> 'v) list \<Rightarrow> (string \<times> 'v) list" where
  "store_binding k v [] = [(k, v)]"
| "store_binding k v ((k', v') # kvs) =
     (if to_lower k' = to_lower k then (k, v) # kvs else (k', v') # store_binding k v kvs)"

text \<open>Modelled from the spec: the lookup of an alias in one frame, case-insensitively.\<close>

definition lookup_binding :: "string \<Rightarrow> (string \<times> 'v) list \<Rightarrow> 'v option" where
  "lookup_binding k kvs = map_option snd (find (\<lambda>kv. to_lower (fst kv) = to_lower k) kvs)"

text \<open>Modelled from the spec: \<^verbatim>\<open>BinderContext::ColumnInSchema(schema, col_name)\<close>, names
  compared lower-cased.\<close>

definition ColumnInSchema :: "Schema \<Rightarrow> string \<Rightarrow> bool" where
  "ColumnInSchema schema col_name = (\<exists>c \<in> set schema. to_lower (Name c) = to_lower col_name)"

text \<open>Modelled from the spec: \<^verbatim>\<open>BinderContext::AddRegularTable(accessor, db, ns, table, alias)\<close>
  consults the catalog for the database OID, the table OID and the schema and stores them
  under the alias.  A table that does not resolve is the NotFound error, with the message
  the visitor itself uses for it at line 120.\<close>

definition AddRegularTable ::
  "CatalogAccessor \<Rightarrow> string \<Rightarrow> string \<Rightarrow> string \<Rightarrow> string \<Rightarrow> BinderContext
     \<Rightarrow> error + BinderContext" where
  "AddRegularTable accessor db_name namespace_name table_name table_alias ctx =
     (let table_id = GetTableOid accessor table_name in
      if table_id = INVALID_TABLE_OID
      then Inl (BINDER_EXCEPTION NotFound ''Accessing non-existing table.'')
      else Inr (ctx\<lparr>regular_table_alias_list :=
                  store_binding table_alias
                    (GetDatabaseOid accessor db_name, table_id, GetSchema accessor table_id)
                    (regular_table_alias_list ctx)\<rparr>))"

text \<open>Modelled from the spec: \<^verbatim>\<open>BinderContext::AddNestedTable(alias, select_columns)\<close>; the
  projected columns are stored as name and type.\<close>

definition AddNestedTable ::
  "string \<Rightarrow> (string \<times> TypeId) list \<Rightarrow> BinderContext \<Rightarrow> BinderContext" where
  "AddNestedTable table_alias columns ctx =
     ctx\<lparr>nested_table_alias_list := store_binding table_alias columns (nested_table_alias_list ctx)\<rparr>"

text \<open>Modelled from the spec: \<^verbatim>\<open>BinderContext::AddNewTable(name, columns)\<close>.\<close>

definition AddNewTable :: "string \<Rightarrow> ColumnDefinition list \<Rightarrow> BinderContext \<Rightarrow> BinderContext" where
  "AddNewTable new_table_name columns ctx =
     ctx\<lparr>new_table_list := store_binding new_table_name columns (new_table_list ctx)\<rparr>"

text \<open>Modelled from the spec: \<^verbatim>\<open>BinderContext::GetTableMapping(alias)\<close>, a pointer to the
  binding of the alias in this frame, null when there is none.\<close>

definition GetTableMapping :: "string \<Rightarrow> BinderContext \<Rightarrow> TableMetadata option" where
  "GetTableMapping table_alias ctx = lookup_binding table_alias (regular_table_alias_list ctx)"

text \<open>Modelled from the spec: \<^verbatim>\<open>BinderContext::HasTables()\<close>, "has any regular tables".\<close>

definition HasTables :: "BinderContext \<Rightarrow> bool" where
  "HasTables ctx = (regular_table_alias_list ctx \<noteq> [])"

text \<open>Modelled from the spec: the static \<^verbatim>\<open>BinderContext::SetColumnPosTuple(col_name, tuple, expr)\<close>
  writes the identifier triple of the column into the expression; a column reference
  inherits the type of the schema column.\<close>

definition SetColumnPosTuple ::
  "string \<Rightarrow> TableMetadata \<Rightarrow> ColumnValueExpression \<Rightarrow> ColumnValueExpression" where
  "SetColumnPosTuple col_name tuple expr =
     (case tuple of (db_oid, tbl_oid, schema) \<Rightarrow>
        expr\<lparr>cve_database_oid := db_oid, cve_table_oid := tbl_oid,
             cve_column_oid := Oid (GetColumn schema col_name),
             cve_return_value_type := Type (GetColumn schema col_name)\<rparr>)"

text \<open>Modelled from the spec: the scan of one frame for an unqualified column.  The regular
  tables are visited in insertion order; the first table whose schema has the column is
  kept, a second one in the same frame is the ambiguity error.\<close>

fun scan_regular_tables ::
  "string \<Rightarrow> (string \<times> TableMetadata) list \<Rightarrow> (string \<times> TableMetadata) option
     \<Rightarrow> error + (string \<times> TableMetadata) option" where
  "scan_regular_tables col_name [] found = Inr found"
| "scan_regular_tables col_name (entry # entries) found =
     (if ColumnInSchema (snd (snd (snd entry))) col_name
      then (case found of
              None \<Rightarrow> scan_regular_tables col_name entries (Some entry)
            | Some first \<Rightarrow>
                Inl (BINDER_EXCEPTION AmbiguousReference (''Ambiguous column name '' @ col_name)))
      else scan_regular_tables col_name entries found)"

text \<open>Modelled from the spec: the member \<^verbatim>\<open>BinderContext::SetColumnPosTuple(expr)\<close>, the
  resolution of an unqualified column: frames from innermost to outermost, the first frame
  with a match decides.  \<open>Inr None\<close> is the C++ \<^verbatim>\<open>false\<close>.\<close>

fun SetColumnPosTuple_unqualified ::
  "BinderContext list \<Rightarrow> ColumnValueExpression \<Rightarrow> error + ColumnValueExpression option" where
  "SetColumnPosTuple_unqualified [] expr = Inr None"
| "SetColumnPosTuple_unqualified (current # upper) expr =
     (case scan_regular_tables (to_lower (cve_column_name expr))
             (regular_table_alias_list current) None of
        Inl e \<Rightarrow> Inl e
      | Inr (Some entry) \<Rightarrow>
          Inr (Some ((SetColumnPosTuple (to_lower (cve_column_name expr)) (snd entry) expr)
                       \<lparr>cve_depth := int (ctx_depth current)\<rparr>))
      | Inr None \<Rightarrow> SetColumnPosTuple_unqualified upper expr)"

text \<open>Modelled from the spec: \<^verbatim>\<open>BinderContext::GetRegularTableObj(alias, expr, &tuple)\<close>, the
  regular binding of an alias, frames from innermost to outermost.  The result is the
  tuple and the expression with the depth of the frame that has the binding.\<close>

fun GetRegularTableObj ::
  "BinderContext list \<Rightarrow> string \<Rightarrow> ColumnValueExpression
     \<Rightarrow> (TableMetadata \<times> ColumnValueExpression) option" where
  "GetRegularTableObj [] table_alias expr = None"
| "GetRegularTableObj (current # upper) table_alias expr =
     (case lookup_binding table_alias (regular_table_alias_list current) of
        Some tuple \<Rightarrow> Some (tuple, expr\<lparr>cve_depth := int (ctx_depth current)\<rparr>)
      | None \<Rightarrow> GetRegularTableObj upper table_alias expr)"

text \<open>Modelled from the spec: \<^verbatim>\<open>BinderContext::CheckNestedTableColumn(alias, col_name, expr)\<close>,
  the nested binding of an alias, frames from innermost to outermost; within the chosen
  binding the column is required, its absence is the NotFound error.  \<open>Inr None\<close> is the
  C++ \<^verbatim>\<open>false\<close>: no frame has a nested binding of the alias.\<close>

fun CheckNestedTableColumn ::
  "BinderContext list \<Rightarrow> string \<Rightarrow> string \<Rightarrow> ColumnValueExpression
     \<Rightarrow> error + ColumnValueExpression option" where
  "CheckNestedTableColumn [] table_alias col_name expr = Inr None"
| "CheckNestedTableColumn (current # upper) table_alias col_name expr =
     (case lookup_binding table_alias (nested_table_alias_list current) of
        Some columns \<Rightarrow>
          (case lookup_binding col_name columns of
             Some ty \<Rightarrow>
               Inr (Some (expr\<lparr>cve_return_value_type := ty, cve_depth := int (ctx_depth current)\<rparr>))
           | None \<Rightarrow> Inl (BINDER_EXCEPTION NotFound (''Cannot find column '' @ col_name)))
      | None \<Rightarrow> CheckNestedTableColumn upper table_alias col_name expr)"

text \<open>Modelled from the spec: \<^verbatim>\<open>BinderContext::GenerateAllColumnExpressions\<close>, the ordered
  projection of every column of every regular table of the frame (insertion order of the
  tables, then schema order of the columns).\<close>

definition GenerateAllColumnExpressions :: "BinderContext \<Rightarrow> AbstractExpression list" where
  "GenerateAllColumnExpressions ctx =
     concat (map (\<lambda>entry. case entry of (table_alias, db_oid, tbl_oid, schema) \<Rightarrow>
                    map (\<lambda>col. ColumnValue
                           \<lparr>cve_table_name = table_alias, cve_column_name = Name col,
                            cve_database_oid = db_oid, cve_table_oid = tbl_oid,
                            cve_column_oid = Oid col, cve_return_value_type = Type col,
                            cve_depth = int (ctx_depth ctx)\<rparr>) schema)
                 (regular_table_alias_list ctx))"

section \<open>The visitor\<close>

text \<open>The members of \<^verbatim>\<open>BindNodeVisitor\<close> that never change and the operations of the absent
  expression classes.  \<^verbatim>\<open>BinderUtil::Convert\<close> (value coercion) and the four annotation
  passes are parameters; \<open>GetExpressionName\<close> reads the display name of a node.\<close>

record BindNodeVisitor =
  catalog_accessor :: CatalogAccessor
  default_database_name :: string
  Convert :: "AbstractExpression \<Rightarrow> TypeId \<Rightarrow> error + AbstractExpression"
  DeriveDepth :: "AbstractExpression \<Rightarrow> AbstractExpression"
  DeriveSubqueryFlag :: "AbstractExpression \<Rightarrow> AbstractExpression"
  DeriveReturnValueType :: "AbstractExpression \<Rightarrow> AbstractExpression"
  DeriveExpressionName :: "AbstractExpression \<Rightarrow> AbstractExpression"
  GetExpressionName :: "AbstractExpression \<Rightarrow> string"

text \<open>What a visit changes besides the node it is given: the frame chain \<^verbatim>\<open>context_\<close>
  (innermost first, empty for the null pointer) and the expressions interned in the
  parse result.\<close>

record binder_state =
  context_chain :: "BinderContext list"
  parse_result :: "AbstractExpression list"

type_synonym 'a visit_result = "(error + 'a) \<times> binder_state"

text \<open>Sequencing: an exception of the first step propagates with the state it left.\<close>

definition bindR :: "'a visit_result \<Rightarrow> ('a \<Rightarrow> binder_state \<Rightarrow> 'b visit_result) \<Rightarrow> 'b visit_result" where
  "bindR r f = (case r of (Inl e, st) \<Rightarrow> (Inl e, st) | (Inr x, st) \<Rightarrow> f x st)"

text \<open>Modelled from the spec: \<^verbatim>\<open>TryBindDatabaseName(default)\<close> of the parser nodes gives a
  node without a database name the default one.\<close>

definition TryBindDatabaseName :: "string \<Rightarrow> string \<Rightarrow> string" where
  "TryBindDatabaseName default_name database_name =
     (if database_name = [] then default_name else database_name)"

text \<open>\<^verbatim>\<open>Visit(parser::ColumnValueExpression *)\<close>, lines 450 to 481.\<close>

definition Visit_ColumnValueExpression ::
  "ColumnValueExpression \<Rightarrow> binder_state \<Rightarrow> ColumnValueExpression visit_result" where
  "Visit_ColumnValueExpression expr st =
     (if cve_table_oid expr = INVALID_TABLE_OID then
        (let table_name = to_lower (cve_table_name expr);
             col_name = to_lower (cve_column_name expr)
         in if table_name = [] then
              (if context_chain st = []
               then (Inl (BINDER_EXCEPTION NotFound (''Cannot find column '' @ col_name)), st)
               else (case SetColumnPosTuple_unqualified (context_chain st) expr of
                       Inl e \<Rightarrow> (Inl e, st)
                     | Inr None \<Rightarrow>
                         (Inl (BINDER_EXCEPTION NotFound (''Cannot find column '' @ col_name)), st)
                     | Inr (Some expr') \<Rightarrow> (Inr expr', st)))
            else
              (case (if context_chain st \<noteq> [] then GetRegularTableObj (context_chain st) table_name expr
                     else None) of
                 Some (tuple, expr1) \<Rightarrow>
                   (if \<not> ColumnInSchema (snd (snd tuple)) col_name
                    then (Inl (BINDER_EXCEPTION NotFound (''Cannot find column '' @ col_name)), st)
                    else (Inr (SetColumnPosTuple col_name tuple expr1), st))
               | None \<Rightarrow>
                   (if context_chain st = []
                    then (Inl (BINDER_EXCEPTION InvalidReference
                                 (''Invalid table reference '' @ cve_table_name expr)), st)
                    else (case CheckNestedTableColumn (context_chain st) table_name col_name expr of
                            Inl e \<Rightarrow> (Inl e, st)
                          | Inr None \<Rightarrow>
                              (Inl (BINDER_EXCEPTION InvalidReference
                                      (''Invalid table reference '' @ cve_table_name expr)), st)
                          | Inr (Some expr') \<Rightarrow> (Inr expr', st)))))
      else (Inr expr, st))"

text \<open>The visits of the expressions, of \<^verbatim>\<open>SelectStatement\<close> (lines 43 to 87),
  \<^verbatim>\<open>JoinDefinition\<close> (90 to 96), \<^verbatim>\<open>TableRef\<close> (98 to 124), \<^verbatim>\<open>GroupByDescription\<close> and
  \<^verbatim>\<open>OrderByDescription\<close> (126 to 136) call one another.  Each returns the node as the visit
  leaves it.  \<^verbatim>\<open>SqlNodeVisitor::Visit\<close> of an operator or an aggregate (absent) is modelled
  from the spec as the visit of the children in order.  The visit of a LIMIT does nothing,
  so the limit is passed through.\<close>

function (sequential) Visit_AbstractExpression ::
      "BindNodeVisitor \<Rightarrow> AbstractExpression \<Rightarrow> binder_state \<Rightarrow> AbstractExpression visit_result"
and Visit_children ::
      "BindNodeVisitor \<Rightarrow> AbstractExpression list \<Rightarrow> binder_state
         \<Rightarrow> AbstractExpression list visit_result"
and Visit_when_clauses ::
      "BindNodeVisitor \<Rightarrow> (AbstractExpression \<times> AbstractExpression) list \<Rightarrow> binder_state
         \<Rightarrow> (AbstractExpression \<times> AbstractExpression) list visit_result"
and Visit_SelectStatement ::
      "BindNodeVisitor \<Rightarrow> SelectStatement \<Rightarrow> binder_state \<Rightarrow> SelectStatement visit_result"
and Visit_select_columns ::
      "BindNodeVisitor \<Rightarrow> AbstractExpression list \<Rightarrow> AbstractExpression list \<Rightarrow> binder_state
         \<Rightarrow> AbstractExpression list visit_result"
and Visit_TableRef ::
      "BindNodeVisitor \<Rightarrow> TableRef \<Rightarrow> binder_state \<Rightarrow> TableRef visit_result"
and Visit_table_list ::
      "BindNodeVisitor \<Rightarrow> TableRef list \<Rightarrow> binder_state \<Rightarrow> TableRef list visit_result"
and Visit_JoinDefinition ::
      "BindNodeVisitor \<Rightarrow> JoinDefinition \<Rightarrow> binder_state \<Rightarrow> JoinDefinition visit_result"
and Visit_GroupByDescription ::
      "BindNodeVisitor \<Rightarrow> GroupByDescription \<Rightarrow> binder_state \<Rightarrow> GroupByDescription visit_result"
and Visit_OrderByDescription ::
      "BindNodeVisitor \<Rightarrow> OrderByDescription \<Rightarrow> binder_state \<Rightarrow> OrderByDescription visit_result"
and Visit_order_by_expressions ::
      "BindNodeVisitor \<Rightarrow> AbstractExpression option list \<Rightarrow> binder_state
         \<Rightarrow> AbstractExpression option list visit_result"
where
  "Visit_AbstractExpression v (ConstantValueExpression t val) st =
     (Inr (ConstantValueExpression t val), st)"
| "Visit_AbstractExpression v (TypeCastExpression t cs) st =
     (Inr (TypeCastExpression t cs), st)"
| "Visit_AbstractExpression v (ColumnValue expr) st =
     bindR (Visit_ColumnValueExpression expr st) (\<lambda>expr' st. (Inr (ColumnValue expr'), st))"
| "Visit_AbstractExpression v StarExpression st =
     (if context_chain st = [] \<or> \<not> HasTables (hd (context_chain st))
      then (Inl (BINDER_EXCEPTION InvalidStar ''Invalid [Expression :: STAR].''), st)
      else (Inr StarExpression, st))"
| "Visit_AbstractExpression v (SubqueryExpression subselect) st =
     bindR (Visit_SelectStatement v subselect st)
       (\<lambda>subselect' st. (Inr (SubqueryExpression subselect'), st))"
| "Visit_AbstractExpression v (OperatorExpression t cs) st =
     bindR (Visit_children v cs st)
       (\<lambda>cs' st. (Inr (DeriveReturnValueType v (OperatorExpression t cs')), st))"
| "Visit_AbstractExpression v (AggregateExpression t cs) st =
     bindR (Visit_children v cs st)
       (\<lambda>cs' st. (Inr (DeriveReturnValueType v (AggregateExpression t cs')), st))"
| "Visit_AbstractExpression v (CaseExpression t whens dflt) st =
     bindR (Visit_when_clauses v whens st)
       (\<lambda>whens' st. (Inr (CaseExpression t whens' dflt), st))"
| "Visit_children v [] st = (Inr [], st)"
| "Visit_children v (c # cs) st =
     bindR (Visit_AbstractExpression v c st) (\<lambda>c' st.
     bindR (Visit_children v cs st) (\<lambda>cs' st. (Inr (c' # cs'), st)))"
| "Visit_when_clauses v [] st = (Inr [], st)"
| "Visit_when_clauses v ((cond, res) # whens) st =
     bindR (Visit_AbstractExpression v cond st) (\<lambda>cond' st.
     bindR (Visit_when_clauses v whens st) (\<lambda>whens' st. (Inr ((cond', res) # whens'), st)))"
| "Visit_SelectStatement v (SelectStatement columns tbl cond order_by lim group_by d) st =
     bindR (case tbl of
              None \<Rightarrow> (Inr None, st\<lparr>context_chain := new_BinderContext (context_chain st) # context_chain st\<rparr>)
            | Some t \<Rightarrow>
                bindR (Visit_TableRef v t
                         (st\<lparr>context_chain := new_BinderContext (context_chain st) # context_chain st\<rparr>))
                  (\<lambda>t' st. (Inr (Some t'), st))) (\<lambda>tbl' st.
     bindR (case cond of
              None \<Rightarrow> (Inr None, st)
            | Some c \<Rightarrow>
                bindR (Visit_AbstractExpression v c st)
                  (\<lambda>c' st. (Inr (Some (DeriveSubqueryFlag v (DeriveDepth v c'))), st))) (\<lambda>cond' st.
     bindR (case order_by of
              None \<Rightarrow> (Inr None, st)
            | Some ob \<Rightarrow>
                bindR (Visit_OrderByDescription v ob st) (\<lambda>ob' st. (Inr (Some ob'), st))) (\<lambda>order_by' st.
     bindR (case group_by of
              None \<Rightarrow> (Inr None, st)
            | Some gb \<Rightarrow>
                bindR (Visit_GroupByDescription v gb st) (\<lambda>gb' st. (Inr (Some gb'), st))) (\<lambda>group_by' st.
     bindR (Visit_select_columns v columns [] st) (\<lambda>new_select_list st.
       (case context_chain st of
          [] \<Rightarrow> (Inl NULL_POINTER_DEREFERENCE, st)
        | curr_context # upper \<Rightarrow>
            (Inr (SelectStatement new_select_list tbl' cond' order_by' lim group_by'
                    (int (ctx_depth curr_context))),
             st\<lparr>context_chain := upper\<rparr>)))))))"
| "Visit_select_columns v [] new_select_list st = (Inr new_select_list, st)"
| "Visit_select_columns v (select_element # rest) new_select_list st =
     (if GetExpressionType select_element = STAR then
        (case context_chain st of
           [] \<Rightarrow> (Inl NULL_POINTER_DEREFERENCE, st)
         | curr_context # upper \<Rightarrow>
             Visit_select_columns v rest
               (new_select_list @ GenerateAllColumnExpressions curr_context)
               (st\<lparr>parse_result := parse_result st @ GenerateAllColumnExpressions curr_context\<rparr>))
      else
        bindR (Visit_AbstractExpression v select_element st) (\<lambda>e st.
          Visit_select_columns v rest
            (new_select_list @
               [DeriveExpressionName v (DeriveReturnValueType v (DeriveSubqueryFlag v (DeriveDepth v e)))])
            st))"
| "Visit_TableRef v (TableRef table_alias db_name ns_name table_name sel join lst) st =
     (case sel of
        Some s \<Rightarrow>
          (if table_alias = []
           then (Inl (BINDER_EXCEPTION MissingAlias ''Alias not found for query derived table''), st)
           else
             bindR (Visit_SelectStatement v s st) (\<lambda>s' st'.
               (case context_chain st of
                  [] \<Rightarrow> (Inl NULL_POINTER_DEREFERENCE, st'\<lparr>context_chain := context_chain st\<rparr>)
                | pre_context # upper \<Rightarrow>
                    (Inr (TableRef table_alias (TryBindDatabaseName (default_database_name v) db_name)
                            ns_name table_name (Some s') join lst),
                     st'\<lparr>context_chain :=
                           AddNestedTable table_alias
                             (map (\<lambda>e. (GetExpressionName v e, GetReturnValueType e)) (sel_columns s'))
                             pre_context # upper\<rparr>))))
      | None \<Rightarrow>
          (case join of
             Some j \<Rightarrow>
               bindR (Visit_JoinDefinition v j st) (\<lambda>j' st.
                 (Inr (TableRef table_alias (TryBindDatabaseName (default_database_name v) db_name)
                         ns_name table_name None (Some j') lst), st))
           | None \<Rightarrow>
               (if lst \<noteq> [] then
                  bindR (Visit_table_list v lst st) (\<lambda>lst' st.
                    (Inr (TableRef table_alias (TryBindDatabaseName (default_database_name v) db_name)
                            ns_name table_name None None lst'), st))
                else if GetTableOid (catalog_accessor v) table_name = INVALID_TABLE_OID
                then (Inl (BINDER_EXCEPTION NotFound ''Accessing non-existing table.''), st)
                else
                  (case context_chain st of
                     [] \<Rightarrow> (Inl NULL_POINTER_DEREFERENCE, st)
                   | current # upper \<Rightarrow>
                       (case AddRegularTable (catalog_accessor v)
                               (TryBindDatabaseName (default_database_name v) db_name) ns_name table_name
                               (if table_alias = [] then table_name else table_alias) current of
                          Inl e \<Rightarrow> (Inl e, st)
                        | Inr current' \<Rightarrow>
                            (Inr (TableRef table_alias
                                    (TryBindDatabaseName (default_database_name v) db_name)
                                    ns_name table_name None None []),
                             st\<lparr>context_chain := current' # upper\<rparr>))))))"
| "Visit_table_list v [] st = (Inr [], st)"
| "Visit_table_list v (t # ts) st =
     bindR (Visit_TableRef v t st) (\<lambda>t' st.
     bindR (Visit_table_list v ts st) (\<lambda>ts' st. (Inr (t' # ts'), st)))"
| "Visit_JoinDefinition v (JoinDefinition left right cond) st =
     bindR (Visit_TableRef v left st) (\<lambda>left' st.
     bindR (Visit_TableRef v right st) (\<lambda>right' st.
     bindR (Visit_AbstractExpression v cond st) (\<lambda>cond' st.
       (Inr (JoinDefinition left' right' cond'), st))))"
| "Visit_GroupByDescription v (GroupByDescription cols having) st =
     bindR (Visit_children v cols st) (\<lambda>cols' st.
     bindR (case having of
              None \<Rightarrow> (Inr None, st)
            | Some h \<Rightarrow> bindR (Visit_AbstractExpression v h st) (\<lambda>h' st. (Inr (Some h'), st)))
       (\<lambda>having' st. (Inr (GroupByDescription cols' having'), st)))"
| "Visit_OrderByDescription v (OrderByDescription exprs) st =
     bindR (Visit_order_by_expressions v exprs st) (\<lambda>exprs' st. (Inr (OrderByDescription exprs'), st))"
| "Visit_order_by_expressions v [] st = (Inr [], st)"
| "Visit_order_by_expressions v (None # exprs) st =
     bindR (Visit_order_by_expressions v exprs st) (\<lambda>exprs' st. (Inr (None # exprs'), st))"
| "Visit_order_by_expressions v (Some e # exprs) st =
     bindR (Visit_AbstractExpression v e st) (\<lambda>e' st.
     bindR (Visit_order_by_expressions v exprs st) (\<lambda>exprs' st. (Inr (Some e' # exprs'), st)))"
  by pat_completeness auto

termination
  by (relation "measure (case_sum
        (case_sum
           (case_sum (\<lambda>(v, e, st). size e) (\<lambda>(v, es, st). size_list size es))
           (case_sum (\<lambda>(v, ws, st). size_list (size_prod size size) ws)
              (case_sum (\<lambda>(v, s, st). size s) (\<lambda>(v, es, acc, st). size_list size es))))
        (case_sum
           (case_sum (\<lambda>(v, t, st). size t)
              (case_sum (\<lambda>(v, ts, st). size_list size ts) (\<lambda>(v, j, st). size j)))
           (case_sum (\<lambda>(v, g, st). size g)
              (case_sum (\<lambda>(v, ob, st). size ob)
                 (\<lambda>(v, es, st). size_list (size_option size) es)))))")
     auto

section \<open>Statements\<close>

text \<open>A visited optional expression: \<^verbatim>\<open>if (e != nullptr) e->Accept(this, parse_result)\<close>.\<close>

definition Visit_optional ::
  "BindNodeVisitor \<Rightarrow> AbstractExpression option \<Rightarrow> binder_state
     \<Rightarrow> AbstractExpression option visit_result" where
  "Visit_optional v e st =
     (case e of
        None \<Rightarrow> (Inr None, st)
      | Some x \<Rightarrow> bindR (Visit_AbstractExpression v x st) (\<lambda>x' st. (Inr (Some x'), st)))"

text \<open>The frame operations of the statements: a member call on \<^verbatim>\<open>context_\<close> needs a frame,
  and a call through the null pointer is the error value.\<close>

definition with_current_context ::
  "(BinderContext \<Rightarrow> error + BinderContext) \<Rightarrow> binder_state \<Rightarrow> unit visit_result" where
  "with_current_context f st =
     (case context_chain st of
        [] \<Rightarrow> (Inl NULL_POINTER_DEREFERENCE, st)
      | current # upper \<Rightarrow>
          (case f current of
             Inl e \<Rightarrow> (Inl e, st)
           | Inr current' \<Rightarrow> (Inr (), st\<lparr>context_chain := current' # upper\<rparr>)))"

text \<open>\<^verbatim>\<open>context_ = new BinderContext(context_)\<close>.\<close>

definition push_context :: "binder_state \<Rightarrow> binder_state" where
  "push_context st = st\<lparr>context_chain := new_BinderContext (context_chain st) # context_chain st\<rparr>"

text \<open>\<^verbatim>\<open>context_ = new BinderContext(nullptr)\<close>.\<close>

definition root_context :: "binder_state \<Rightarrow> binder_state" where
  "root_context st = st\<lparr>context_chain := [new_BinderContext []]\<rparr>"

text \<open>\<^verbatim>\<open>curr_context = context_; context_ = context_->GetUpperContext(); delete curr_context\<close>.\<close>

definition pop_context :: "'a \<Rightarrow> binder_state \<Rightarrow> 'a visit_result" where
  "pop_context node st =
     (case context_chain st of
        [] \<Rightarrow> (Inl NULL_POINTER_DEREFERENCE, st)
      | curr_context # upper \<Rightarrow> (Inr node, st\<lparr>context_chain := upper\<rparr>))"

text \<open>\<^verbatim>\<open>delete context_; context_ = nullptr\<close>.\<close>

definition delete_context :: "'a \<Rightarrow> binder_state \<Rightarrow> 'a visit_result" where
  "delete_context node st = (Inr node, st\<lparr>context_chain := []\<rparr>)"

subsection \<open>INSERT, lines 305 to 384\<close>

record InsertStatement =
  ins_table :: TableRef
  ins_columns :: "string list"
  ins_select :: "SelectStatement option"
  ins_values :: "AbstractExpression list list"

text \<open>"Test that all the insert columns exist", lines 334 to 338.\<close>

fun check_insert_columns :: "Schema \<Rightarrow> string list \<Rightarrow> error + unit" where
  "check_insert_columns table_schema [] = Inr ()"
| "check_insert_columns table_schema (col # cols) =
     (if \<not> ColumnInSchema table_schema col
      then Inl (BINDER_EXCEPTION NotFound ''Insert column does not exist'')
      else check_insert_columns table_schema cols)"

text \<open>"Test that they have the same number of columns", lines 349 to 356.\<close>

definition check_num_values :: "nat \<Rightarrow> nat \<Rightarrow> nat \<Rightarrow> error + unit" where
  "check_num_values num_insert_columns num_schema_columns num_values =
     (let is_insert_cols_specified = num_insert_columns \<noteq> 0;
          insert_cols_ok = is_insert_cols_specified \<and> num_values = num_insert_columns;
          insert_schema_ok = \<not> is_insert_cols_specified \<and> num_values = num_schema_columns
      in if \<not> (insert_cols_ok \<or> insert_schema_ok)
         then Inl (BINDER_EXCEPTION ArityMismatch
                     ''Mismatch in number of insert columns and number of insert values.'')
         else Inr ())"

text \<open>"Test that the column values are of the right type", lines 358 to 377: the loop over
  the cells of one row, from cell \<open>i\<close> on.  The expected type is the type of the schema
  column at the position of the cell.\<close>

fun convert_values ::
  "BindNodeVisitor \<Rightarrow> Schema \<Rightarrow> nat \<Rightarrow> AbstractExpression list \<Rightarrow> binder_state
     \<Rightarrow> AbstractExpression list visit_result" where
  "convert_values v table_schema i [] st = (Inr [], st)"
| "convert_values v table_schema i (expr # rest) st =
     (case GetColumnAt table_schema i of
        None \<Rightarrow> (Inl INDEX_OUT_OF_RANGE, st)
      | Some column \<Rightarrow>
          (let ret_type = GetReturnValueType expr;
               expected_ret_type = Type column;
               is_cast_expression = (GetExpressionType expr = OPERATOR_CAST);
               mismatched_type = (ret_type \<noteq> expected_ret_type)
           in if is_cast_expression \<or> mismatched_type then
                (case Convert v expr expected_ret_type of
                   Inl e \<Rightarrow> (Inl e, st)
                 | Inr converted \<Rightarrow>
                     bindR (convert_values v table_schema (Suc i) rest
                              (st\<lparr>parse_result := parse_result st @ [converted]\<rparr>))
                       (\<lambda>rest' st. (Inr (converted # rest'), st)))
              else
                bindR (convert_values v table_schema (Suc i) rest st)
                  (\<lambda>rest' st. (Inr (expr # rest'), st))))"

text \<open>One pass of the loop over the rows, lines 346 to 378.\<close>

definition bind_insert_row ::
  "BindNodeVisitor \<Rightarrow> Schema \<Rightarrow> nat \<Rightarrow> AbstractExpression list \<Rightarrow> binder_state
     \<Rightarrow> AbstractExpression list visit_result" where
  "bind_insert_row v table_schema num_insert_columns values st =
     (case check_num_values num_insert_columns (length table_schema) (length values) of
        Inl e \<Rightarrow> (Inl e, st)
      | Inr u \<Rightarrow> convert_values v table_schema 0 values st)"

fun bind_insert_rows ::
  "BindNodeVisitor \<Rightarrow> Schema \<Rightarrow> nat \<Rightarrow> AbstractExpression list list \<Rightarrow> binder_state
     \<Rightarrow> AbstractExpression list list visit_result" where
  "bind_insert_rows v table_schema num_insert_columns [] st = (Inr [], st)"
| "bind_insert_rows v table_schema num_insert_columns (values # rows) st =
     bindR (bind_insert_row v table_schema num_insert_columns values st) (\<lambda>values' st.
     bindR (bind_insert_rows v table_schema num_insert_columns rows st) (\<lambda>rows' st.
       (Inr (values' # rows'), st)))"

text \<open>The RAW INSERT branch, lines 325 to 380, on the frame that holds the insertion table.\<close>

definition bind_raw_insert ::
  "BindNodeVisitor \<Rightarrow> InsertStatement \<Rightarrow> binder_state \<Rightarrow> InsertStatement visit_result" where
  "bind_raw_insert v node st =
     (case context_chain st of
        [] \<Rightarrow> (Inl NULL_POINTER_DEREFERENCE, st)
      | current # upper \<Rightarrow>
          (case GetTableMapping (tr_table_name (ins_table node)) current of
             None \<Rightarrow> (Inl NULL_POINTER_DEREFERENCE, st)
           | Some binder_table_data \<Rightarrow>
               (let table_schema = snd (snd binder_table_data) in
                case check_insert_columns table_schema (ins_columns node) of
                  Inl e \<Rightarrow> (Inl e, st)
                | Inr u \<Rightarrow>
                    bindR (bind_insert_rows v table_schema (length (ins_columns node))
                             (ins_values node) st)
                      (\<lambda>values' st. (Inr (node\<lparr>ins_values := values'\<rparr>), st)))))"

definition Visit_InsertStatement ::
  "BindNodeVisitor \<Rightarrow> InsertStatement \<Rightarrow> binder_state \<Rightarrow> InsertStatement visit_result" where
  "Visit_InsertStatement v node st =
     (let tbl = ins_table node;
          db_name = TryBindDatabaseName (default_database_name v) (tr_database_name tbl);
          node1 = node\<lparr>ins_table :=
                    TableRef (tr_alias tbl) db_name (tr_namespace_name tbl) (tr_table_name tbl)
                      (tr_select tbl) (tr_join tbl) (tr_list tbl)\<rparr>
      in bindR (with_current_context
                  (AddRegularTable (catalog_accessor v) db_name (tr_namespace_name tbl)
                     (tr_table_name tbl) (tr_table_name tbl))
                  (root_context st)) (\<lambda>u st.
         bindR (case ins_select node1 of
                  Some s \<Rightarrow>
                    bindR (Visit_SelectStatement v s st)
                      (\<lambda>s' st. (Inr (node1\<lparr>ins_select := Some s'\<rparr>), st))
                | None \<Rightarrow> bind_raw_insert v node1 st)
           delete_context))"

subsection \<open>DROP, lines 386 to 420\<close>

datatype DropType = kDatabase | kTable | kIndex | kTrigger | kSchema | kView | kPreparedStatement

record DropStatement =
  drop_type :: DropType
  drop_database_name :: string
  drop_table_name :: string
  drop_index_name :: string

text \<open>The \<^verbatim>\<open>switch\<close> on the drop type, lines 391 to 416.\<close>

definition check_drop :: "BindNodeVisitor \<Rightarrow> DropStatement \<Rightarrow> error + DropStatement" where
  "check_drop v node =
     (case drop_type node of
        kDatabase \<Rightarrow>
          (if GetDatabaseOid (catalog_accessor v) (drop_database_name node) = INVALID_DATABASE_OID
           then Inl (BINDER_EXCEPTION NotFound ''Database does not exist'')
           else Inr node)
      | kTable \<Rightarrow>
          (if GetTableOid (catalog_accessor v) (drop_table_name node) = INVALID_TABLE_OID
           then Inl (BINDER_EXCEPTION NotFound ''Table does not exist'')
           else Inr (node\<lparr>drop_database_name :=
                       TryBindDatabaseName (default_database_name v) (drop_database_name node)\<rparr>))
      | kIndex \<Rightarrow>
          (if GetIndexOid (catalog_accessor v) (drop_index_name node) = INVALID_INDEX_OID
           then Inl (BINDER_EXCEPTION NotFound ''Index does not exist'')
           else Inr (node\<lparr>drop_database_name :=
                       TryBindDatabaseName (default_database_name v) (drop_database_name node)\<rparr>))
      | kTrigger \<Rightarrow> Inr node
      | kSchema \<Rightarrow> Inr node
      | kView \<Rightarrow> Inr node
      | kPreparedStatement \<Rightarrow> Inr node)"

definition Visit_DropStatement ::
  "BindNodeVisitor \<Rightarrow> DropStatement \<Rightarrow> binder_state \<Rightarrow> DropStatement visit_result" where
  "Visit_DropStatement v node st =
     (case check_drop v node of
        Inl e \<Rightarrow> (Inl e, push_context st)
      | Inr node' \<Rightarrow> pop_context node' (push_context st))"

subsection \<open>CREATE, lines 197 to 303\<close>

datatype CreateType =
  kCreateDatabase | kCreateTable | kCreateIndex | kCreateTrigger | kCreateSchema | kCreateView

record ForeignKey =
  fk_sink_table_name :: string
  fk_sources :: "string list"
  fk_sinks :: "string list"

record IndexAttr =
  ia_name :: string
  ia_expression :: "AbstractExpression option"

record CreateStatement =
  create_type :: CreateType
  create_database_name :: string
  create_namespace_name :: string
  create_table_name :: string
  create_index_name :: string
  create_columns :: "ColumnDefinition list"
  create_foreign_keys :: "ForeignKey list"
  create_index_attributes :: "IndexAttr list"
  create_trigger_when :: "AbstractExpression option"
  create_view_query :: "SelectStatement option"

text \<open>The loop over the declared columns, lines 214 to 217: the default and the check
  expression of every column are visited.\<close>

fun Visit_column_definitions ::
  "BindNodeVisitor \<Rightarrow> ColumnDefinition list \<Rightarrow> binder_state \<Rightarrow> ColumnDefinition list visit_result" where
  "Visit_column_definitions v [] st = (Inr [], st)"
| "Visit_column_definitions v (col # cols) st =
     bindR (Visit_optional v (cd_default_expression col) st) (\<lambda>dflt st.
     bindR (Visit_optional v (cd_check_expression col) st) (\<lambda>chk st.
     bindR (Visit_column_definitions v cols st) (\<lambda>cols' st.
       (Inr (col\<lparr>cd_default_expression := dflt, cd_check_expression := chk\<rparr> # cols'), st))))"

text \<open>The search of the source column among the declared columns, lines 239 to 252.  The
  names are compared with \<^verbatim>\<open>==\<close> of \<^verbatim>\<open>std::string\<close>; the first column of that name
  decides (\<^verbatim>\<open>break\<close>).\<close>

fun find_foreign_key_source :: "ColumnDefinition list \<Rightarrow> string \<Rightarrow> Column \<Rightarrow> error + unit" where
  "find_foreign_key_source [] src_i ref_col =
     Inl (BINDER_EXCEPTION NotFound (''Cannot find column '' @ src_i @ '' in foreign key source''))"
| "find_foreign_key_source (col # cols) src_i ref_col =
     (if cd_column_name col = src_i then
        (if Type ref_col \<noteq> cd_value_type col
         then Inl (BINDER_EXCEPTION TypeMismatch
                     (''Foreign key source column '' @ src_i @
                      ''type does not match reference column type''))
         else Inr ())
      else find_foreign_key_source cols src_i ref_col)"

text \<open>The loop over the positions of a foreign key, lines 233 to 253.  It runs after the
  test that both lists have the same length, so it walks the two lists together.\<close>

fun check_foreign_key_columns ::
  "Schema \<Rightarrow> ColumnDefinition list \<Rightarrow> string list \<Rightarrow> string list \<Rightarrow> error + unit" where
  "check_foreign_key_columns sink_schema columns [] ref = Inr ()"
| "check_foreign_key_columns sink_schema columns (src_i # src) [] = Inl INDEX_OUT_OF_RANGE"
| "check_foreign_key_columns sink_schema columns (src_i # src) (ref_i # ref) =
     (if Oid (GetColumn sink_schema ref_i) = INVALID_COLUMN_OID
      then Inl (BINDER_EXCEPTION NotFound ''Foreign key referencing non-existing column'')
      else (case find_foreign_key_source columns src_i (GetColumn sink_schema ref_i) of
              Inl e \<Rightarrow> Inl e
            | Inr u \<Rightarrow> check_foreign_key_columns sink_schema columns src ref))"

text \<open>One foreign key, lines 219 to 253.\<close>

definition check_foreign_key ::
  "CatalogAccessor \<Rightarrow> ColumnDefinition list \<Rightarrow> ForeignKey \<Rightarrow> error + unit" where
  "check_foreign_key accessor columns fk =
     (let table_oid = GetTableOid accessor (fk_sink_table_name fk) in
      if table_oid = INVALID_TABLE_OID
      then Inl (BINDER_EXCEPTION NotFound ''Foreign key referencing non-existing table'')
      else if length (fk_sources fk) \<noteq> length (fk_sinks fk)
      then Inl (BINDER_EXCEPTION ArityMismatch
                  ''Number of columns in foreign key does not match number of reference columns'')
      else check_foreign_key_columns (GetSchema accessor table_oid) columns
             (fk_sources fk) (fk_sinks fk))"

fun check_foreign_keys ::
  "CatalogAccessor \<Rightarrow> ColumnDefinition list \<Rightarrow> ForeignKey list \<Rightarrow> error + unit" where
  "check_foreign_keys accessor columns [] = Inr ()"
| "check_foreign_keys accessor columns (fk # fks) =
     (case check_foreign_key accessor columns fk of
        Inl e \<Rightarrow> Inl e
      | Inr u \<Rightarrow> check_foreign_keys accessor columns fks)"

text \<open>The loop over the index attributes, lines 267 to 277.\<close>

fun Visit_index_attributes ::
  "BindNodeVisitor \<Rightarrow> string \<Rightarrow> IndexAttr list \<Rightarrow> binder_state \<Rightarrow> IndexAttr list visit_result" where
  "Visit_index_attributes v table_name [] st = (Inr [], st)"
| "Visit_index_attributes v table_name (attr # attrs) st =
     bindR (case ia_expression attr of
              Some e \<Rightarrow>
                bindR (Visit_AbstractExpression v e st)
                  (\<lambda>e' st. (Inr (attr\<lparr>ia_expression := Some e'\<rparr>), st))
            | None \<Rightarrow>
                (if \<not> ColumnInSchema
                        (GetSchema (catalog_accessor v) (GetTableOid (catalog_accessor v) table_name))
                        (ia_name attr)
                 then (Inl (BINDER_EXCEPTION NotFound
                              (''No such column specified by the index attribute '' @ ia_name attr)), st)
                 else (Inr attr, st))) (\<lambda>attr' st.
     bindR (Visit_index_attributes v table_name attrs st) (\<lambda>attrs' st.
       (Inr (attr' # attrs'), st)))"

text \<open>The \<^verbatim>\<open>switch\<close> on the create type, lines 202 to 299, on the pushed frame.\<close>

definition bind_create ::
  "BindNodeVisitor \<Rightarrow> CreateStatement \<Rightarrow> binder_state \<Rightarrow> CreateStatement visit_result" where
  "bind_create v node st =
     (let accessor = catalog_accessor v;
          bound = node\<lparr>create_database_name :=
                    TryBindDatabaseName (default_database_name v) (create_database_name node)\<rparr>;
          add = (\<lambda>table_alias.
                   with_current_context
                     (AddRegularTable accessor (create_database_name bound)
                        (create_namespace_name node) (create_table_name node) table_alias))
      in case create_type node of
        kCreateDatabase \<Rightarrow>
          (if GetDatabaseOid accessor (create_database_name node) \<noteq> INVALID_DATABASE_OID
           then (Inl (BINDER_EXCEPTION AlreadyExists ''Database name already exists''), st)
           else (Inr node, st))
      | kCreateTable \<Rightarrow>
          (if GetTableOid accessor (create_table_name node) \<noteq> INVALID_TABLE_OID
           then (Inl (BINDER_EXCEPTION AlreadyExists ''Table name already exists''), st)
           else
             bindR (with_current_context
                      (\<lambda>c. Inr (AddNewTable (create_table_name node) (create_columns node) c)) st)
               (\<lambda>u st.
             bindR (Visit_column_definitions v (create_columns node) st) (\<lambda>cols' st.
               (case check_foreign_keys accessor cols' (create_foreign_keys node) of
                  Inl e \<Rightarrow> (Inl e, st)
                | Inr u \<Rightarrow> (Inr (bound\<lparr>create_columns := cols'\<rparr>), st)))))
      | kCreateIndex \<Rightarrow>
          (if GetTableOid accessor (create_table_name node) = INVALID_TABLE_OID
           then (Inl (BINDER_EXCEPTION NotFound ''Build index on non-existing table.''), st)
           else if GetIndexOid accessor (create_index_name node) \<noteq> INVALID_INDEX_OID
           then (Inl (BINDER_EXCEPTION AlreadyExists ''This index already exists.''), st)
           else
             bindR (add (create_table_name node) st) (\<lambda>u st.
             bindR (Visit_index_attributes v (create_table_name node)
                      (create_index_attributes node) st) (\<lambda>attrs' st.
               (Inr (bound\<lparr>create_index_attributes := attrs'\<rparr>), st))))
      | kCreateTrigger \<Rightarrow>
          bindR (add (create_table_name node) st) (\<lambda>u st.
          bindR (add ''old'' st) (\<lambda>u st.
          bindR (add ''new'' st) (\<lambda>u st.
          bindR (Visit_optional v (create_trigger_when node) st) (\<lambda>when' st.
            (Inr (bound\<lparr>create_trigger_when := when'\<rparr>), st)))))
      | kCreateSchema \<Rightarrow> (Inr node, st)
      | kCreateView \<Rightarrow>
          (case create_view_query node of
             None \<Rightarrow> (Inl (ASSERTION_FAILURE ''View requires a query''), st)
           | Some q \<Rightarrow>
               bindR (Visit_SelectStatement v q st)
                 (\<lambda>q' st. (Inr (bound\<lparr>create_view_query := Some q'\<rparr>), st))))"

definition Visit_CreateStatement ::
  "BindNodeVisitor \<Rightarrow> CreateStatement \<Rightarrow> binder_state \<Rightarrow> CreateStatement visit_result" where
  "Visit_CreateStatement v node st = bindR (bind_create v node (push_context st)) pop_context"

subsection \<open>UPDATE, DELETE, COPY and the statements that need no binding\<close>

record UpdateClause =
  uc_column :: string
  uc_value :: AbstractExpression

record UpdateStatement =
  update_table :: TableRef
  update_condition :: "AbstractExpression option"
  update_clauses :: "UpdateClause list"

fun Visit_update_clauses ::
  "BindNodeVisitor \<Rightarrow> UpdateClause list \<Rightarrow> binder_state \<Rightarrow> UpdateClause list visit_result" where
  "Visit_update_clauses v [] st = (Inr [], st)"
| "Visit_update_clauses v (update # updates) st =
     bindR (Visit_AbstractExpression v (uc_value update) st) (\<lambda>value' st.
     bindR (Visit_update_clauses v updates st) (\<lambda>updates' st.
       (Inr (update\<lparr>uc_value := value'\<rparr> # updates'), st)))"

text \<open>Lines 138 to 150.\<close>

definition Visit_UpdateStatement ::
  "BindNodeVisitor \<Rightarrow> UpdateStatement \<Rightarrow> binder_state \<Rightarrow> UpdateStatement visit_result" where
  "Visit_UpdateStatement v node st =
     bindR (Visit_TableRef v (update_table node) (root_context st)) (\<lambda>table' st.
     bindR (Visit_optional v (update_condition node) st) (\<lambda>cond' st.
     bindR (Visit_update_clauses v (update_clauses node) st) (\<lambda>clauses' st.
       delete_context
         (node\<lparr>update_table := table', update_condition := cond', update_clauses := clauses'\<rparr>)
         st)))"

record DeleteStatement =
  delete_table :: TableRef
  delete_condition :: "AbstractExpression option"

text \<open>Lines 152 to 166.\<close>

definition Visit_DeleteStatement ::
  "BindNodeVisitor \<Rightarrow> DeleteStatement \<Rightarrow> binder_state \<Rightarrow> DeleteStatement visit_result" where
  "Visit_DeleteStatement v node st =
     (let tbl = delete_table node;
          db_name = TryBindDatabaseName (default_database_name v) (tr_database_name tbl);
          table' = TableRef (tr_alias tbl) db_name (tr_namespace_name tbl) (tr_table_name tbl)
                     (tr_select tbl) (tr_join tbl) (tr_list tbl)
      in bindR (with_current_context
                  (AddRegularTable (catalog_accessor v) db_name (tr_namespace_name tbl)
                     (tr_table_name tbl) (tr_table_name tbl))
                  (root_context st)) (\<lambda>u st.
         bindR (Visit_optional v (delete_condition node) st) (\<lambda>cond' st.
           delete_context (node\<lparr>delete_table := table', delete_condition := cond'\<rparr>) st)))"

record CopyStatement =
  copy_table :: "TableRef option"
  copy_select :: "SelectStatement option"

text \<open>Lines 173 to 190.  With a table, the generated column expressions are interned and
  appended to a copy of the select list, so the node keeps its select list.\<close>

definition Visit_CopyStatement ::
  "BindNodeVisitor \<Rightarrow> CopyStatement \<Rightarrow> binder_state \<Rightarrow> CopyStatement visit_result" where
  "Visit_CopyStatement v node st =
     bindR (case copy_table node of
              Some t \<Rightarrow>
                bindR (Visit_TableRef v t (root_context st)) (\<lambda>t' st.
                  (case context_chain st of
                     [] \<Rightarrow> (Inl NULL_POINTER_DEREFERENCE, st)
                   | current # upper \<Rightarrow>
                       (case copy_select node of
                          None \<Rightarrow>
                            (Inl NULL_POINTER_DEREFERENCE,
                             st\<lparr>parse_result :=
                                  parse_result st @ GenerateAllColumnExpressions current\<rparr>)
                        | Some s \<Rightarrow>
                            (Inr (node\<lparr>copy_table := Some t'\<rparr>),
                             st\<lparr>parse_result :=
                                  parse_result st @ GenerateAllColumnExpressions current\<rparr>))))
            | None \<Rightarrow>
                (case copy_select node of
                   None \<Rightarrow> (Inl NULL_POINTER_DEREFERENCE, root_context st)
                 | Some s \<Rightarrow>
                     bindR (Visit_SelectStatement v s (root_context st))
                       (\<lambda>s' st. (Inr (node\<lparr>copy_select := Some s'\<rparr>), st))))
       delete_context"

text \<open>The statements of the parse tree.  PREPARE, EXECUTE, the transaction statements and
  CREATE FUNCTION are visited without any effect (lines 192 to 195 and 421 to 432); ANALYZE
  gives its table the default database name (lines 433 to 436).\<close>

datatype SQLStatement =
    Select SelectStatement
  | Insert InsertStatement
  | Update UpdateStatement
  | Delete DeleteStatement
  | Copy CopyStatement
  | Create CreateStatement
  | Drop DropStatement
  | Analyze TableRef
  | CreateFunction
  | Prepare
  | Execute
  | Transaction

text \<open>\<^verbatim>\<open>BindNameToNode(tree, parse_result)\<close>, lines 38 to 41: \<^verbatim>\<open>tree->Accept(this, parse_result)\<close>.\<close>

definition BindNameToNode ::
  "BindNodeVisitor \<Rightarrow> SQLStatement \<Rightarrow> binder_state \<Rightarrow> SQLStatement visit_result" where
  "BindNameToNode v tree st =
     (case tree of
        Select node \<Rightarrow> bindR (Visit_SelectStatement v node st) (\<lambda>n st. (Inr (Select n), st))
      | Insert node \<Rightarrow> bindR (Visit_InsertStatement v node st) (\<lambda>n st. (Inr (Insert n), st))
      | Update node \<Rightarrow> bindR (Visit_UpdateStatement v node st) (\<lambda>n st. (Inr (Update n), st))
      | Delete node \<Rightarrow> bindR (Visit_DeleteStatement v node st) (\<lambda>n st. (Inr (Delete n), st))
      | Copy node \<Rightarrow> bindR (Visit_CopyStatement v node st) (\<lambda>n st. (Inr (Copy n), st))
      | Create node \<Rightarrow> bindR (Visit_CreateStatement v node st) (\<lambda>n st. (Inr (Create n), st))
      | Drop node \<Rightarrow> bindR (Visit_DropStatement v node st) (\<lambda>n st. (Inr (Drop n), st))
      | Analyze tbl \<Rightarrow>
          (Inr (Analyze
                  (TableRef (tr_alias tbl)
                     (TryBindDatabaseName (default_database_name v) (tr_database_name tbl))
                     (tr_namespace_name tbl) (tr_table_name tbl) (tr_select tbl) (tr_join tbl)
                     (tr_list tbl))), st)
      | CreateFunction \<Rightarrow> (Inr CreateFunction, st)
      | Prepare \<Rightarrow> (Inr Prepare, st)
      | Execute \<Rightarrow> (Inr Execute, st)
      | Transaction \<Rightarrow> (Inr Transaction, st))"

section \<open>Derived notions and example inputs\<close>

text \<open>The frame an INSERT builds (lines 307 to 321): a root frame whose only binding is the
  insertion table under its own name; and the schema the row checks read from it.\<close>

definition insertion_frame :: "BindNodeVisitor \<Rightarrow> InsertStatement \<Rightarrow> BinderContext" where
  "insertion_frame v node =
     \<lparr>regular_table_alias_list =
        [(tr_table_name (ins_table node),
          GetDatabaseOid (catalog_accessor v)
            (TryBindDatabaseName (default_database_name v) (tr_database_name (ins_table node))),
          GetTableOid (catalog_accessor v) (tr_table_name (ins_table node)),
          GetSchema (catalog_accessor v)
            (GetTableOid (catalog_accessor v) (tr_table_name (ins_table node))))],
      nested_table_alias_list = [], new_table_list = [], ctx_depth = 0\<rparr>"

definition insertion_schema :: "BindNodeVisitor \<Rightarrow> InsertStatement \<Rightarrow> Schema" where
  "insertion_schema v node =
     GetSchema (catalog_accessor v) (GetTableOid (catalog_accessor v) (tr_table_name (ins_table node)))"

text \<open>A catalog with the database \<open>terrier\<close>, the tables \<open>users(id INTEGER, name TEXT)\<close>,
  \<open>orders(id INTEGER)\<close> and \<open>u(b TEXT)\<close>, and the index \<open>users_idx\<close>.\<close>

definition example_catalog :: CatalogAccessor where
  "example_catalog =
     \<lparr>GetDatabaseOid = (\<lambda>name. if name = ''terrier'' then 1 else INVALID_DATABASE_OID),
      GetTableOid = (\<lambda>name. if name = ''users'' then 1 else if name = ''orders'' then 2
                            else if name = ''u'' then 3 else INVALID_TABLE_OID),
      GetIndexOid = (\<lambda>name. if name = ''users_idx'' then 1 else INVALID_INDEX_OID),
      GetSchema = (\<lambda>oid. if oid = 1 then [\<lparr>Name = ''id'', Oid = 1, Type = INTEGER\<rparr>,
                                             \<lparr>Name = ''name'', Oid = 2, Type = TEXT\<rparr>]
                          else if oid = 2 then [\<lparr>Name = ''id'', Oid = 1, Type = INTEGER\<rparr>]
                          else if oid = 3 then [\<lparr>Name = ''b'', Oid = 1, Type = TEXT\<rparr>]
                          else [])\<rparr>"

text \<open>A visitor over that catalog.  Its coercion retypes a constant and rejects every other
  expression; its annotation passes leave the node alone.\<close>

definition example_visitor :: BindNodeVisitor where
  "example_visitor =
     \<lparr>catalog_accessor = example_catalog,
      default_database_name = ''terrier'',
      Convert = (\<lambda>e t. case e of
                   ConstantValueExpression t' val \<Rightarrow> Inr (ConstantValueExpression t val)
                 | _ \<Rightarrow> Inl (BINDER_EXCEPTION TypeMismatch ''cannot convert'')),
      DeriveDepth = (\<lambda>e. e),
      DeriveSubqueryFlag = (\<lambda>e. e),
      DeriveReturnValueType = (\<lambda>e. e),
      DeriveExpressionName = (\<lambda>e. e),
      GetExpressionName = (\<lambda>e. case e of ColumnValue c \<Rightarrow> cve_column_name c | _ \<Rightarrow> [])\<rparr>"

text \<open>The state of a fresh visitor: no frame, nothing interned.\<close>

definition initial_state :: binder_state where
  "initial_state = \<lparr>context_chain = [], parse_result = []\<rparr>"

definition table_named :: "string \<Rightarrow> TableRef" where
  "table_named name = TableRef [] [] [] name None None []"

text \<open>\<^verbatim>\<open>INSERT INTO users VALUES ('x')\<close>: one value for a table of two columns.\<close>

definition insert_one_value :: InsertStatement where
  "insert_one_value =
     \<lparr>ins_table = table_named ''users'', ins_columns = [], ins_select = None,
      ins_values = [[ConstantValueExpression TEXT ''x'']]\<rparr>"

text \<open>\<^verbatim>\<open>DROP TABLE missing\<close> and a bound column reference.\<close>

definition drop_missing_table :: DropStatement where
  "drop_missing_table =
     \<lparr>drop_type = kTable, drop_database_name = [], drop_table_name = ''missing'',
      drop_index_name = []\<rparr>"

definition bound_column :: ColumnValueExpression where
  "bound_column =
     \<lparr>cve_table_name = ''NoSuchTable'', cve_column_name = ''NoSuchColumn'',
      cve_database_oid = 1, cve_table_oid = 7, cve_column_oid = 3,
      cve_return_value_type = INTEGER, cve_depth = 0\<rparr>"

text \<open>The tables of a frame whose schema has a column of the given (lower-cased) name, in
  insertion order: the candidates of an unqualified reference in that frame.\<close>

definition frame_matches :: "string \<Rightarrow> BinderContext \<Rightarrow> (string \<times> TableMetadata) list" where
  "frame_matches col_name frame =
     filter (\<lambda>entry. ColumnInSchema (snd (snd (snd entry))) col_name)
       (regular_table_alias_list frame)"

text \<open>What the spec requires of one pair of a foreign key, source column \<open>src_i\<close> and sink
  column \<open>ref_i\<close>, as the error of the pair: the sink column exists in the sink table, the
  source column is declared in this CREATE, and both have the same value type.\<close>

definition foreign_key_pair_error ::
  "Schema \<Rightarrow> ColumnDefinition list \<Rightarrow> string \<Rightarrow> string \<Rightarrow> error option" where
  "foreign_key_pair_error sink_schema columns src_i ref_i =
     (if Oid (GetColumn sink_schema ref_i) = INVALID_COLUMN_OID
      then Some (BINDER_EXCEPTION NotFound ''Foreign key referencing non-existing column'')
      else (case find (\<lambda>col. cd_column_name col = src_i) columns of
              None \<Rightarrow>
                Some (BINDER_EXCEPTION NotFound
                        (''Cannot find column '' @ src_i @ '' in foreign key source''))
            | Some col \<Rightarrow>
                if cd_value_type col \<noteq> Type (GetColumn sink_schema ref_i)
                then Some (BINDER_EXCEPTION TypeMismatch
                             (''Foreign key source column '' @ src_i @
                              ''type does not match reference column type''))
                else None))"

text \<open>\<^verbatim>\<open>CREATE TABLE t(a INT, FOREIGN KEY (a) REFERENCES u(b))\<close>, scenario S7 of the spec: the
  declared columns and the foreign key.\<close>

definition create_t_a_integer :: "ColumnDefinition list" where
  "create_t_a_integer =
     [\<lparr>cd_column_name = ''a'', cd_value_type = INTEGER, cd_default_expression = None,
       cd_check_expression = None\<rparr>]"

definition foreign_key_a_u_b :: ForeignKey where
  "foreign_key_a_u_b = \<lparr>fk_sink_table_name = ''u'', fk_sources = [''a''], fk_sinks = [''b'']\<rparr>"

text \<open>A column reference as the parser leaves it, \<^verbatim>\<open>SELECT id FROM users\<close>, the derived table
  \<^verbatim>\<open>(SELECT id FROM users) AS alias\<close>, and the state inside a statement that has pushed its
  frame.\<close>

definition unbound_column :: "string \<Rightarrow> string \<Rightarrow> ColumnValueExpression" where
  "unbound_column table_name column_name =
     \<lparr>cve_table_name = table_name, cve_column_name = column_name,
      cve_database_oid = INVALID_DATABASE_OID, cve_table_oid = INVALID_TABLE_OID,
      cve_column_oid = INVALID_COLUMN_OID, cve_return_value_type = INVALID, cve_depth = 0 - 1\<rparr>"

definition select_id_from_users :: SelectStatement where
  "select_id_from_users =
     SelectStatement [ColumnValue (unbound_column [] ''id'')] (Some (table_named ''users''))
       None None None None 0"

definition derived_table :: "string \<Rightarrow> TableRef" where
  "derived_table table_alias = TableRef table_alias [] [] [] (Some select_id_from_users) None []"

definition one_frame_state :: binder_state where
  "one_frame_state = \<lparr>context_chain = [new_BinderContext []], parse_result = []\<rparr>"

definition bound_select_id_from_users :: SelectStatement where
  "bound_select_id_from_users =
     SelectStatement
       [ColumnValue \<lparr>cve_table_name = [], cve_column_name = ''id'', cve_database_oid = 1,
                     cve_table_oid = 1, cve_column_oid = 1, cve_return_value_type = INTEGER,
                     cve_depth = 1\<rparr>]
       (Some (TableRef [] ''terrier'' [] ''users'' None None [])) None None None None 1"

text \<open>Two frames as \<^verbatim>\<open>AddRegularTable\<close> fills them, and the chain of a subquery over
  \<open>orders\<close> inside a query over \<open>users\<close>.\<close>

definition users_frame :: BinderContext where
  "users_frame =
     \<lparr>regular_table_alias_list =
        [(''users'', 1, 1, [\<lparr>Name = ''id'', Oid = 1, Type = INTEGER\<rparr>,
                            \<lparr>Name = ''name'', Oid = 2, Type = TEXT\<rparr>])],
      nested_table_alias_list = [], new_table_list = [], ctx_depth = 0\<rparr>"

definition orders_frame :: BinderContext where
  "orders_frame =
     \<lparr>regular_table_alias_list = [(''orders'', 1, 2, [\<lparr>Name = ''id'', Oid = 1, Type = INTEGER\<rparr>])],
      nested_table_alias_list = [], new_table_list = [], ctx_depth = 1\<rparr>"

definition orders_in_users_state :: binder_state where
  "orders_in_users_state = \<lparr>context_chain = [orders_frame, users_frame], parse_result = []\<rparr>"

text \<open>The same column reference under another spelling of its two names.\<close>

definition respell :: "string \<Rightarrow> string \<Rightarrow> ColumnValueExpression \<Rightarrow> ColumnValueExpression" where
  "respell table_name column_name expr =
     expr\<lparr>cve_table_name := table_name, cve_column_name := column_name\<rparr>"

text \<open>A declared column of a CREATE TABLE without default and check expression.\<close>

definition declared_column :: "string \<Rightarrow> TypeId \<Rightarrow> ColumnDefinition" where
  "declared_column name ty =
     \<lparr>cd_column_name = name, cd_value_type = ty, cd_default_expression = None,
      cd_check_expression = None\<rparr>"

text \<open>\<^verbatim>\<open>INSERT INTO users (name) VALUES ('x')\<close>, \<^verbatim>\<open>INSERT INTO users (nosuch) VALUES ('x')\<close> and
  \<^verbatim>\<open>SELECT * FROM (SELECT id FROM users)\<close>, scenario S4 of the spec.\<close>

definition insert_named_text :: InsertStatement where
  "insert_named_text =
     \<lparr>ins_table = table_named ''users'', ins_columns = [''name''], ins_select = None,
      ins_values = [[ConstantValueExpression TEXT ''x'']]\<rparr>"

definition insert_unknown_column :: InsertStatement where
  "insert_unknown_column =
     \<lparr>ins_table = table_named ''users'', ins_columns = [''nosuch''], ins_select = None,
      ins_values = [[ConstantValueExpression TEXT ''x'']]\<rparr>"

definition select_star_from_unnamed_subquery :: SelectStatement where
  "select_star_from_unnamed_subquery =
     SelectStatement [StarExpression] (Some (derived_table [])) None None None None 0"

section \<open>Lemmas about the INSERT binding\<close>

lemma lookup_binding_single: "lookup_binding k [(k, x)] = Some x"
  by (simp add: lookup_binding_def)

lemma Visit_InsertStatement_missing_table:
  assumes "GetTableOid (catalog_accessor v) (tr_table_name (ins_table node)) = INVALID_TABLE_OID"
  shows "Visit_InsertStatement v node st =
           (Inl (BINDER_EXCEPTION NotFound ''Accessing non-existing table.''), root_context st)"
  using assms
  by (simp add: Visit_InsertStatement_def Let_def bindR_def with_current_context_def
        root_context_def AddRegularTable_def)

lemma Visit_InsertStatement_values:
  assumes "ins_select node = None"
    and "GetTableOid (catalog_accessor v) (tr_table_name (ins_table node)) \<noteq> INVALID_TABLE_OID"
  shows "Visit_InsertStatement v node st =
     (case check_insert_columns (insertion_schema v node) (ins_columns node) of
        Inl e \<Rightarrow> (Inl e, st\<lparr>context_chain := [insertion_frame v node]\<rparr>)
      | Inr u \<Rightarrow>
          (case bind_insert_rows v (insertion_schema v node) (length (ins_columns node))
                  (ins_values node) (st\<lparr>context_chain := [insertion_frame v node]\<rparr>) of
             (Inl e, st') \<Rightarrow> (Inl e, st')
           | (Inr rows', st') \<Rightarrow>
               (Inr (node\<lparr>ins_table :=
                        TableRef (tr_alias (ins_table node))
                          (TryBindDatabaseName (default_database_name v)
                             (tr_database_name (ins_table node)))
                          (tr_namespace_name (ins_table node)) (tr_table_name (ins_table node))
                          (tr_select (ins_table node)) (tr_join (ins_table node))
                          (tr_list (ins_table node)),
                        ins_values := rows'\<rparr>),
                st'\<lparr>context_chain := []\<rparr>)))"
  using assms
  by (simp add: Visit_InsertStatement_def Let_def bindR_def with_current_context_def
        root_context_def AddRegularTable_def new_BinderContext_def bind_raw_insert_def
        GetTableMapping_def lookup_binding_single insertion_frame_def insertion_schema_def
        delete_context_def
      split: sum.splits prod.splits)

lemma check_num_values_iff:
  "check_num_values n m k =
     (if (if n \<noteq> 0 then k \<noteq> n else k \<noteq> m)
      then Inl (BINDER_EXCEPTION ArityMismatch
                  ''Mismatch in number of insert columns and number of insert values.'')
      else Inr ())"
  by (auto simp: check_num_values_def Let_def)

lemma convert_values_no_arity_error:
  assumes "\<forall>e t msg. Convert v e t \<noteq> Inl (BINDER_EXCEPTION ArityMismatch msg)"
  shows "fst (convert_values v schema i cells st) \<noteq> Inl (BINDER_EXCEPTION ArityMismatch msg)"
proof (induction cells arbitrary: i st)
  case Nil
  show ?case by simp
next
  case (Cons expr rest)
  show ?case
  proof (cases "GetColumnAt schema i")
    case None
    then show ?thesis by simp
  next
    case (Some column)
    show ?thesis
    proof (cases "GetExpressionType expr = OPERATOR_CAST \<or> GetReturnValueType expr \<noteq> Type column")
      case True
      show ?thesis
      proof (cases "Convert v expr (Type column)")
        case (Inl e)
        with assms have "e \<noteq> BINDER_EXCEPTION ArityMismatch msg" by metis
        with Some True Inl show ?thesis by (simp add: Let_def)
      next
        case (Inr converted)
        from Cons.IH [of "Suc i" "st\<lparr>parse_result := parse_result st @ [converted]\<rparr>"]
        show ?thesis using Some True Inr
          by (auto simp: Let_def bindR_def split: prod.splits sum.splits)
      qed
    next
      case False
      from Cons.IH [of "Suc i" st]
      show ?thesis using Some False
        by (auto simp: Let_def bindR_def split: prod.splits sum.splits)
    qed
  qed
qed

lemma bind_insert_row_arity_iff:
  assumes "\<forall>e t msg. Convert v e t \<noteq> Inl (BINDER_EXCEPTION ArityMismatch msg)"
  shows "(\<exists>msg. fst (bind_insert_row v schema n row st) = Inl (BINDER_EXCEPTION ArityMismatch msg))
         \<longleftrightarrow> (if n \<noteq> 0 then length row \<noteq> n else length row \<noteq> length schema)"
  using convert_values_no_arity_error [OF assms, of schema 0 row st]
  by (auto simp: bind_insert_row_def check_num_values_iff)

lemma bind_insert_rows_arity_error:
  assumes "\<forall>e t msg. Convert v e t \<noteq> Inl (BINDER_EXCEPTION ArityMismatch msg)"
    and "fst (bind_insert_rows v schema n rows st) = Inl (BINDER_EXCEPTION ArityMismatch msg)"
  shows "\<exists>row \<in> set rows. if n \<noteq> 0 then length row \<noteq> n else length row \<noteq> length schema"
  using assms(2)
proof (induction rows arbitrary: st)
  case Nil
  then show ?case by simp
next
  case (Cons row rows)
  show ?case
  proof (cases "bind_insert_row v schema n row st")
    case (Pair r st')
    show ?thesis
    proof (cases r)
      case (Inl e)
      with Pair Cons.prems have "fst (bind_insert_row v schema n row st)
          = Inl (BINDER_EXCEPTION ArityMismatch msg)"
        by (simp add: bindR_def)
      with bind_insert_row_arity_iff [OF assms(1), of schema n row st] show ?thesis
        by auto
    next
      case (Inr row')
      with Pair Cons.prems
      have "fst (bind_insert_rows v schema n rows st') = Inl (BINDER_EXCEPTION ArityMismatch msg)"
        by (auto simp: bindR_def split: prod.splits sum.splits)
      from Cons.IH [OF this] show ?thesis by auto
    qed
  qed
qed

lemma bind_insert_rows_bad_row_fails:
  assumes "\<exists>row \<in> set rows. if n \<noteq> 0 then length row \<noteq> n else length row \<noteq> length schema"
  shows "isl (fst (bind_insert_rows v schema n rows st))"
  using assms
proof (induction rows arbitrary: st)
  case Nil
  then show ?case by simp
next
  case (Cons row rows)
  show ?case
  proof (cases "if n \<noteq> 0 then length row \<noteq> n else length row \<noteq> length schema")
    case True
    then have "bind_insert_row v schema n row st =
        (Inl (BINDER_EXCEPTION ArityMismatch
                ''Mismatch in number of insert columns and number of insert values.''), st)"
      by (simp add: bind_insert_row_def check_num_values_iff)
    then show ?thesis by (simp add: bindR_def)
  next
    case False
    with Cons.prems
    have rest: "\<exists>row \<in> set rows. if n \<noteq> 0 then length row \<noteq> n else length row \<noteq> length schema"
      by auto
    show ?thesis
    proof (cases "bind_insert_row v schema n row st")
      case (Pair r st')
      show ?thesis
      proof (cases r)
        case (Inl e)
        with Pair show ?thesis by (simp add: bindR_def)
      next
        case (Inr row')
        with Pair Cons.IH [OF rest, of st'] show ?thesis
          by (auto simp: bindR_def split: prod.splits sum.splits)
      qed
    qed
  qed
qed

lemma check_insert_columns_error:
  "check_insert_columns schema cols = Inl e \<Longrightarrow>
     e = BINDER_EXCEPTION NotFound ''Insert column does not exist''"
  by (induction cols) (auto split: if_splits)

section \<open>Lemmas about the resolution of column references\<close>

lemma to_lower_eq_Nil: "to_lower s = [] \<longleftrightarrow> s = []"
  by (simp add: to_lower_def)

lemma scan_regular_tables_filter:
  "scan_regular_tables col entries found =
     (case (found, filter (\<lambda>entry. ColumnInSchema (snd (snd (snd entry))) col) entries) of
        (None, []) \<Rightarrow> Inr None
      | (None, [entry]) \<Rightarrow> Inr (Some entry)
      | (Some first, []) \<Rightarrow> Inr (Some first)
      | _ \<Rightarrow> Inl (BINDER_EXCEPTION AmbiguousReference (''Ambiguous column name '' @ col)))"
proof (induction entries arbitrary: found)
  case Nil
  show ?case by (cases found) simp_all
next
  case (Cons entry entries)
  show ?case
  proof (cases "ColumnInSchema (snd (snd (snd entry))) col")
    case True
    then show ?thesis
      by (cases found) (simp_all add: Cons.IH split: list.splits)
  next
    case False
    then show ?thesis by (simp add: Cons.IH)
  qed
qed

lemma unqualified_no_match:
  assumes "\<forall>f \<in> set chain. frame_matches (to_lower (cve_column_name expr)) f = []"
  shows "SetColumnPosTuple_unqualified chain expr = Inr None"
  using assms
  by (induction chain) (simp_all add: scan_regular_tables_filter frame_matches_def)

lemma unqualified_first_frame:
  assumes "\<forall>g \<in> set inner. frame_matches (to_lower (cve_column_name expr)) g = []"
  shows "SetColumnPosTuple_unqualified (inner @ f # outer) expr =
         SetColumnPosTuple_unqualified (f # outer) expr"
  using assms
  by (induction inner) (simp_all add: scan_regular_tables_filter frame_matches_def)

lemma Visit_unqualified:
  assumes "cve_table_oid expr = INVALID_TABLE_OID" and "cve_table_name expr = []"
  shows "Visit_ColumnValueExpression expr st =
     (case SetColumnPosTuple_unqualified (context_chain st) expr of
        Inl e \<Rightarrow> (Inl e, st)
      | Inr None \<Rightarrow>
          (Inl (BINDER_EXCEPTION NotFound
                  (''Cannot find column '' @ to_lower (cve_column_name expr))), st)
      | Inr (Some expr') \<Rightarrow> (Inr expr', st))"
  using assms
  by (cases "context_chain st") (simp_all add: Visit_ColumnValueExpression_def Let_def to_lower_eq_Nil)

lemma Visit_qualified:
  assumes "cve_table_oid expr = INVALID_TABLE_OID" and "cve_table_name expr \<noteq> []"
  shows "Visit_ColumnValueExpression expr st =
     (case GetRegularTableObj (context_chain st) (to_lower (cve_table_name expr)) expr of
        Some (tuple, expr1) \<Rightarrow>
          (if ColumnInSchema (snd (snd tuple)) (to_lower (cve_column_name expr))
           then (Inr (SetColumnPosTuple (to_lower (cve_column_name expr)) tuple expr1), st)
           else (Inl (BINDER_EXCEPTION NotFound
                        (''Cannot find column '' @ to_lower (cve_column_name expr))), st))
      | None \<Rightarrow>
          (case CheckNestedTableColumn (context_chain st) (to_lower (cve_table_name expr))
                  (to_lower (cve_column_name expr)) expr of
             Inl e \<Rightarrow> (Inl e, st)
           | Inr None \<Rightarrow>
               (Inl (BINDER_EXCEPTION InvalidReference
                       (''Invalid table reference '' @ cve_table_name expr)), st)
           | Inr (Some expr') \<Rightarrow> (Inr expr', st)))"
  using assms
  by (cases "context_chain st")
     (simp_all add: Visit_ColumnValueExpression_def Let_def to_lower_eq_Nil split: option.splits)

lemma regular_lookup_none:
  assumes "\<forall>g \<in> set chain. lookup_binding table_alias (regular_table_alias_list g) = None"
  shows "GetRegularTableObj chain table_alias expr = None"
  using assms by (induction chain) simp_all

lemma regular_lookup_first:
  assumes "\<forall>g \<in> set inner. lookup_binding table_alias (regular_table_alias_list g) = None"
    and "lookup_binding table_alias (regular_table_alias_list f) = Some tuple"
  shows "GetRegularTableObj (inner @ f # outer) table_alias expr =
         Some (tuple, expr\<lparr>cve_depth := int (ctx_depth f)\<rparr>)"
  using assms by (induction inner) simp_all

lemma nested_lookup_none:
  assumes "\<forall>g \<in> set chain. lookup_binding table_alias (nested_table_alias_list g) = None"
  shows "CheckNestedTableColumn chain table_alias col expr = Inr None"
  using assms by (induction chain) simp_all

lemma nested_lookup_first:
  assumes "\<forall>g \<in> set inner. lookup_binding table_alias (nested_table_alias_list g) = None"
    and "lookup_binding table_alias (nested_table_alias_list f) = Some columns"
  shows "CheckNestedTableColumn (inner @ f # outer) table_alias col expr =
         (case lookup_binding col columns of
            Some ty \<Rightarrow> Inr (Some (expr\<lparr>cve_return_value_type := ty,
                                         cve_depth := int (ctx_depth f)\<rparr>))
          | None \<Rightarrow> Inl (BINDER_EXCEPTION NotFound (''Cannot find column '' @ col)))"
  using assms by (induction inner) simp_all

section \<open>Lemmas about foreign keys and derived tables\<close>

lemma find_foreign_key_source_find:
  "find_foreign_key_source columns src_i ref_col =
     (case find (\<lambda>col. cd_column_name col = src_i) columns of
        None \<Rightarrow> Inl (BINDER_EXCEPTION NotFound
                       (''Cannot find column '' @ src_i @ '' in foreign key source''))
      | Some col \<Rightarrow>
          if Type ref_col \<noteq> cd_value_type col
          then Inl (BINDER_EXCEPTION TypeMismatch
                      (''Foreign key source column '' @ src_i @
                       ''type does not match reference column type''))
          else Inr ())"
  by (induction columns) simp_all

lemma foreign_key_pair_step:
  "check_foreign_key_columns sink_schema columns (src_i # src) (ref_i # ref) =
     (case foreign_key_pair_error sink_schema columns src_i ref_i of
        Some e \<Rightarrow> Inl e
      | None \<Rightarrow> check_foreign_key_columns sink_schema columns src ref)"
  by (auto simp: foreign_key_pair_error_def find_foreign_key_source_find split: option.splits)

lemma check_foreign_key_columns_ok:
  assumes "length src = length ref"
  shows "check_foreign_key_columns sink_schema columns src ref = Inr () \<longleftrightarrow>
         (\<forall>i < length src. foreign_key_pair_error sink_schema columns (src ! i) (ref ! i) = None)"
  using assms
proof (induction src ref rule: list_induct2)
  case Nil
  show ?case by simp
next
  case (Cons s src r ref)
  show ?case
  proof (cases "foreign_key_pair_error sink_schema columns s r")
    case None
    with Cons.IH show ?thesis
      by (simp only: foreign_key_pair_step) (auto simp: less_Suc_eq_0_disj)
  next
    case (Some e)
    then show ?thesis
      by (simp only: foreign_key_pair_step) auto
  qed
qed

lemma check_foreign_key_columns_first_error:
  assumes "length src = length ref"
    and "i < length src"
    and "\<forall>j < i. foreign_key_pair_error sink_schema columns (src ! j) (ref ! j) = None"
    and "foreign_key_pair_error sink_schema columns (src ! i) (ref ! i) = Some e"
  shows "check_foreign_key_columns sink_schema columns src ref = Inl e"
  using assms
proof (induction src ref arbitrary: i rule: list_induct2)
  case Nil
  then show ?case by simp
next
  case (Cons s src r ref)
  show ?case
  proof (cases i)
    case 0
    with Cons.prems show ?thesis by (simp only: foreign_key_pair_step) simp
  next
    case (Suc k)
    with Cons.prems have head: "foreign_key_pair_error sink_schema columns s r = None"
      by force
    from Suc Cons.prems have
      "k < length src"
      "\<forall>j < k. foreign_key_pair_error sink_schema columns (src ! j) (ref ! j) = None"
      "foreign_key_pair_error sink_schema columns (src ! k) (ref ! k) = Some e"
      by auto
    from Cons.IH [OF this] head show ?thesis
      by (simp only: foreign_key_pair_step) simp
  qed
qed

lemma lookup_store_binding: "lookup_binding k (store_binding k x kvs) = Some x"
  by (induction kvs) (auto simp: lookup_binding_def)

lemma Visit_select_id_from_users:
  "Visit_SelectStatement example_visitor select_id_from_users one_frame_state =
     (Inr bound_select_id_from_users, one_frame_state)"
  by (simp add: select_id_from_users_def one_frame_state_def bound_select_id_from_users_def
        example_visitor_def example_catalog_def table_named_def unbound_column_def
        new_BinderContext_def bindR_def AddRegularTable_def TryBindDatabaseName_def
        INVALID_TABLE_OID_def INVALID_DATABASE_OID_def INVALID_COLUMN_OID_def
        Visit_ColumnValueExpression_def scan_regular_tables.simps ColumnInSchema_def
        SetColumnPosTuple_def GetColumn_def to_lower_def tolower_def Let_def)

section \<open>Lemmas about the spelling of identifiers\<close>

lemma respell_SetColumnPosTuple:
  "SetColumnPosTuple col tuple (respell t c expr) = respell t c (SetColumnPosTuple col tuple expr)"
  by (simp add: SetColumnPosTuple_def respell_def split: prod.splits)

lemma respell_unqualified:
  assumes "to_lower c = to_lower (cve_column_name expr)"
  shows "SetColumnPosTuple_unqualified chain (respell t c expr) =
         map_sum id (map_option (respell t c)) (SetColumnPosTuple_unqualified chain expr)"
proof (induction chain)
  case Nil
  show ?case by simp
next
  case (Cons current upper)
  have name: "to_lower (cve_column_name (respell t c expr)) = to_lower (cve_column_name expr)"
    using assms by (simp add: respell_def)
  show ?case
    by (simp add: name Cons.IH respell_SetColumnPosTuple split: sum.splits option.splits)
       (simp add: respell_def)
qed

lemma respell_regular:
  "GetRegularTableObj chain table_alias (respell t c expr) =
   map_option (map_prod id (respell t c)) (GetRegularTableObj chain table_alias expr)"
  by (induction chain) (simp_all add: respell_def split: option.splits)

lemma respell_nested:
  "CheckNestedTableColumn chain table_alias col (respell t c expr) =
   map_sum id (map_option (respell t c)) (CheckNestedTableColumn chain table_alias col expr)"
  by (induction chain) (simp_all add: respell_def split: option.splits)

lemma ColumnInSchema_to_lower:
  "to_lower c = to_lower c' \<Longrightarrow> ColumnInSchema schema c = ColumnInSchema schema c'"
  by (simp add: ColumnInSchema_def)

lemma check_insert_columns_to_lower:
  "map to_lower cols' = map to_lower cols \<Longrightarrow>
     check_insert_columns schema cols' = check_insert_columns schema cols"
proof (induction cols arbitrary: cols')
  case Nil
  then show ?case by simp
next
  case (Cons c cols)
  then obtain d ds where "cols' = d # ds" "to_lower d = to_lower c"
    "map to_lower ds = map to_lower cols"
    by (cases cols') auto
  with Cons.IH [of ds] ColumnInSchema_to_lower [of d c schema] show ?case by simp
qed

lemma Visit_respelled:
  assumes "to_lower t = to_lower (cve_table_name expr)"
    and "to_lower c = to_lower (cve_column_name expr)"
  shows "(Visit_ColumnValueExpression expr st = (Inr bound, st') \<longrightarrow>
            Visit_ColumnValueExpression (respell t c expr) st = (Inr (respell t c bound), st')) \<and>
         (Visit_ColumnValueExpression expr st = (Inl (BINDER_EXCEPTION kind msg), st') \<longrightarrow>
            (\<exists>msg'. Visit_ColumnValueExpression (respell t c expr) st =
                      (Inl (BINDER_EXCEPTION kind msg'), st')))"
proof (cases "cve_table_oid expr = INVALID_TABLE_OID")
  case False
  then have "Visit_ColumnValueExpression expr st = (Inr expr, st)"
    "Visit_ColumnValueExpression (respell t c expr) st = (Inr (respell t c expr), st)"
    by (simp_all add: Visit_ColumnValueExpression_def respell_def)
  then show ?thesis by auto
next
  case True
  then have oid: "cve_table_oid (respell t c expr) = INVALID_TABLE_OID"
    by (simp add: respell_def)
  have names: "to_lower (cve_table_name (respell t c expr)) = to_lower (cve_table_name expr)"
    "to_lower (cve_column_name (respell t c expr)) = to_lower (cve_column_name expr)"
    "cve_table_name (respell t c expr) = t"
    using assms by (simp_all add: respell_def)
  show ?thesis
  proof (cases "cve_table_name expr = []")
    case empty: True
    with assms(1) have "t = []" by (simp add: to_lower_def)
    then have empty': "cve_table_name (respell t c expr) = []" by (simp add: respell_def)
    note before = Visit_unqualified [OF True empty, of st]
    note after = Visit_unqualified [OF oid empty', of st, unfolded names(2)
        respell_unqualified [OF assms(2)]]
    show ?thesis
    proof (cases "SetColumnPosTuple_unqualified (context_chain st) expr")
      case (Inl x)
      with before after show ?thesis by auto
    next
      case (Inr found)
      with before after show ?thesis by (cases found) auto
    qed
  next
    case nonempty: False
    with assms(1) have "t \<noteq> []" by (auto simp: to_lower_def)
    then have nonempty': "cve_table_name (respell t c expr) \<noteq> []" by (simp add: respell_def)
    note before = Visit_qualified [OF True nonempty, of st]
    note after = Visit_qualified [OF oid nonempty', of st, unfolded names(2) names(3) assms(1)
        respell_regular respell_nested]
    show ?thesis
    proof (cases "GetRegularTableObj (context_chain st) (to_lower (cve_table_name expr)) expr")
      case (Some found)
      obtain tuple expr1 where "found = (tuple, expr1)" by (cases found)
      with Some before after show ?thesis
        by (auto simp: respell_SetColumnPosTuple)
    next
      case None
      show ?thesis
      proof (cases "CheckNestedTableColumn (context_chain st) (to_lower (cve_table_name expr))
                      (to_lower (cve_column_name expr)) expr")
        case (Inl x)
        with None before after show ?thesis by auto
      next
        case (Inr found)
        with None before after show ?thesis by (cases found) auto
      qed
    qed
  qed
qed

section \<open>Verified claims\<close>

text \<open>C4.  INSERT ... VALUES: a row fails the arity check exactly when its arity differs from
  the number of named insert columns, if columns were named, and from the number of schema
  columns otherwise.  First for one pass of the row loop, then for the statement: an
  ArityMismatch of the statement comes from a row of the wrong arity, and a statement with
  such a row never binds.  The coercion of the cells is the absent \<^verbatim>\<open>BinderUtil::Convert\<close>;
  it is assumed not to raise the ArityMismatch error itself.\<close>

theorem C4_insert_row_arity:
  assumes values_form: "ins_select node = None"
    and coercion: "\<forall>e t msg. Convert v e t \<noteq> Inl (BINDER_EXCEPTION ArityMismatch msg)"
  shows "((\<exists>msg. fst (bind_insert_row v schema (length (ins_columns node)) row st) =
                  Inl (BINDER_EXCEPTION ArityMismatch msg)) \<longleftrightarrow>
          (if ins_columns node \<noteq> [] then length row \<noteq> length (ins_columns node)
           else length row \<noteq> length schema)) \<and>
         ((\<exists>msg. fst (Visit_InsertStatement v node st) = Inl (BINDER_EXCEPTION ArityMismatch msg)) \<longrightarrow>
          (\<exists>row \<in> set (ins_values node).
             if ins_columns node \<noteq> [] then length row \<noteq> length (ins_columns node)
             else length row \<noteq> length (insertion_schema v node))) \<and>
         ((\<exists>row \<in> set (ins_values node).
             if ins_columns node \<noteq> [] then length row \<noteq> length (ins_columns node)
             else length row \<noteq> length (insertion_schema v node)) \<longrightarrow>
          isl (fst (Visit_InsertStatement v node st)))"
proof (intro conjI impI)
  show "(\<exists>msg. fst (bind_insert_row v schema (length (ins_columns node)) row st) =
                  Inl (BINDER_EXCEPTION ArityMismatch msg)) \<longleftrightarrow>
          (if ins_columns node \<noteq> [] then length row \<noteq> length (ins_columns node)
           else length row \<noteq> length schema)"
    using bind_insert_row_arity_iff [OF coercion, of schema "length (ins_columns node)" row st]
    by simp
next
  assume "\<exists>msg. fst (Visit_InsertStatement v node st) = Inl (BINDER_EXCEPTION ArityMismatch msg)"
  then obtain msg where failed:
    "fst (Visit_InsertStatement v node st) = Inl (BINDER_EXCEPTION ArityMismatch msg)" ..
  show "\<exists>row \<in> set (ins_values node).
          if ins_columns node \<noteq> [] then length row \<noteq> length (ins_columns node)
          else length row \<noteq> length (insertion_schema v node)"
  proof (cases "GetTableOid (catalog_accessor v) (tr_table_name (ins_table node)) = INVALID_TABLE_OID")
    case True
    from failed Visit_InsertStatement_missing_table [OF True, of st] show ?thesis by simp
  next
    case False
    note unfolded = Visit_InsertStatement_values [OF values_form False, of st]
    show ?thesis
    proof (cases "check_insert_columns (insertion_schema v node) (ins_columns node)")
      case (Inl e)
      with check_insert_columns_error [OF Inl] failed unfolded show ?thesis by simp
    next
      case (Inr u)
      with failed unfolded
      have "fst (bind_insert_rows v (insertion_schema v node) (length (ins_columns node))
                   (ins_values node) (st\<lparr>context_chain := [insertion_frame v node]\<rparr>)) =
            Inl (BINDER_EXCEPTION ArityMismatch msg)"
        by (auto split: prod.splits sum.splits)
      from bind_insert_rows_arity_error [OF coercion this] show ?thesis by simp
    qed
  qed
next
  assume bad: "\<exists>row \<in> set (ins_values node).
          if ins_columns node \<noteq> [] then length row \<noteq> length (ins_columns node)
          else length row \<noteq> length (insertion_schema v node)"
  show "isl (fst (Visit_InsertStatement v node st))"
  proof (cases "GetTableOid (catalog_accessor v) (tr_table_name (ins_table node)) = INVALID_TABLE_OID")
    case True
    from Visit_InsertStatement_missing_table [OF True, of st] show ?thesis by simp
  next
    case False
    note unfolded = Visit_InsertStatement_values [OF values_form False, of st]
    from bad have "isl (fst (bind_insert_rows v (insertion_schema v node) (length (ins_columns node))
                   (ins_values node) (st\<lparr>context_chain := [insertion_frame v node]\<rparr>)))"
      by (intro bind_insert_rows_bad_row_fails) simp
    with unfolded show ?thesis
      by (auto split: prod.splits sum.splits)
  qed
qed

theorem C4_insert_row_arity_witness:
  "ins_select insert_one_value = None \<and>
   (\<forall>e t msg. Convert example_visitor e t \<noteq> Inl (BINDER_EXCEPTION ArityMismatch msg)) \<and>
   ins_columns insert_one_value = [] \<and>
   map length (ins_values insert_one_value) = [1] \<and>
   length (insertion_schema example_visitor insert_one_value) = 2 \<and>
   isl (fst (Visit_InsertStatement example_visitor insert_one_value initial_state))"
proof -
  have values_form: "ins_select insert_one_value = None"
    by (simp add: insert_one_value_def)
  have coercion:
    "\<forall>e t msg. Convert example_visitor e t \<noteq> Inl (BINDER_EXCEPTION ArityMismatch msg)"
    by (simp add: example_visitor_def split: AbstractExpression.splits)
  have facts: "ins_columns insert_one_value = []"
    "map length (ins_values insert_one_value) = [1]"
    "length (insertion_schema example_visitor insert_one_value) = 2"
    by (simp_all add: insert_one_value_def insertion_schema_def example_visitor_def
          example_catalog_def table_named_def)
  have bad: "\<exists>row \<in> set (ins_values insert_one_value).
      if ins_columns insert_one_value \<noteq> []
      then length row \<noteq> length (ins_columns insert_one_value)
      else length row \<noteq> length (insertion_schema example_visitor insert_one_value)"
    using facts by (simp add: insert_one_value_def)
  from C4_insert_row_arity [OF values_form coercion, of "[]" "[]" initial_state] bad
  have "isl (fst (Visit_InsertStatement example_visitor insert_one_value initial_state))"
    by blast
  with values_form coercion facts show ?thesis by blast
qed

text \<open>C8.  DROP: for a database, a table or an index the binding fails exactly when the
  named object does not resolve in the catalog, and the failure is a NotFound error; for
  a trigger, a schema, a view or a prepared statement nothing is looked up and the
  binding succeeds.\<close>

theorem C8_drop_existence_checks:
  "(drop_type node = kDatabase \<longrightarrow>
      (isl (fst (Visit_DropStatement v node st)) \<longleftrightarrow>
       GetDatabaseOid (catalog_accessor v) (drop_database_name node) = INVALID_DATABASE_OID)) \<and>
   (drop_type node = kTable \<longrightarrow>
      (isl (fst (Visit_DropStatement v node st)) \<longleftrightarrow>
       GetTableOid (catalog_accessor v) (drop_table_name node) = INVALID_TABLE_OID)) \<and>
   (drop_type node = kIndex \<longrightarrow>
      (isl (fst (Visit_DropStatement v node st)) \<longleftrightarrow>
       GetIndexOid (catalog_accessor v) (drop_index_name node) = INVALID_INDEX_OID)) \<and>
   (drop_type node \<in> {kTrigger, kSchema, kView, kPreparedStatement} \<longrightarrow>
      fst (Visit_DropStatement v node st) = Inr node) \<and>
   (isl (fst (Visit_DropStatement v node st)) \<longrightarrow>
      (\<exists>msg. fst (Visit_DropStatement v node st) = Inl (BINDER_EXCEPTION NotFound msg)))"
  by (cases "drop_type node")
     (simp_all add: Visit_DropStatement_def check_drop_def pop_context_def push_context_def)

theorem C8_drop_existence_checks_witness:
  "drop_type drop_missing_table = kTable \<and>
   GetTableOid (catalog_accessor example_visitor) (drop_table_name drop_missing_table) =
     INVALID_TABLE_OID \<and>
   fst (Visit_DropStatement example_visitor drop_missing_table initial_state) =
     Inl (BINDER_EXCEPTION NotFound ''Table does not exist'')"
  using C8_drop_existence_checks [of drop_missing_table example_visitor initial_state]
  by (simp add: drop_missing_table_def example_visitor_def example_catalog_def
        Visit_DropStatement_def check_drop_def)

text \<open>C10.  A column reference whose table OID is already valid is left alone: the visit
  returns the expression and the state it was given, and raises nothing.\<close>

theorem C10_bound_column_is_untouched:
  "cve_table_oid expr \<noteq> INVALID_TABLE_OID \<Longrightarrow>
     Visit_ColumnValueExpression expr st = (Inr expr, st) \<and>
     Visit_AbstractExpression v (ColumnValue expr) st = (Inr (ColumnValue expr), st)"
  by (simp add: Visit_ColumnValueExpression_def bindR_def)

theorem C10_bound_column_is_untouched_witness:
  "cve_table_oid bound_column \<noteq> INVALID_TABLE_OID \<and>
   Visit_ColumnValueExpression bound_column initial_state = (Inr bound_column, initial_state)"
proof -
  have valid: "cve_table_oid bound_column \<noteq> INVALID_TABLE_OID"
    by (simp add: bound_column_def INVALID_TABLE_OID_def)
  from C10_bound_column_is_untouched [OF valid] valid show ?thesis by blast
qed

text \<open>C2.  An unqualified column reference (empty table name, table OID not yet set) is
  looked up in the frames from the innermost to the outermost.  If no frame has a table
  whose schema contains the column, the visit fails with NotFound "Cannot find column x",
  x the lower-cased name.  The first frame that has a match decides, whatever the frames
  outside it hold: one matching table binds the reference to it, two or more are the
  ambiguity error.  The search itself is \<^verbatim>\<open>BinderContext::SetColumnPosTuple\<close>, modelled from
  the spec.\<close>

theorem C2_unqualified_column_resolution:
  assumes "cve_table_oid expr = INVALID_TABLE_OID"
    and "cve_table_name expr = []"
  shows "((\<forall>f \<in> set (context_chain st). frame_matches (to_lower (cve_column_name expr)) f = []) \<longrightarrow>
            Visit_ColumnValueExpression expr st =
              (Inl (BINDER_EXCEPTION NotFound
                      (''Cannot find column '' @ to_lower (cve_column_name expr))), st)) \<and>
         (context_chain st = inner @ f # outer \<and>
          (\<forall>g \<in> set inner. frame_matches (to_lower (cve_column_name expr)) g = []) \<and>
          frame_matches (to_lower (cve_column_name expr)) f = [entry] \<longrightarrow>
            Visit_ColumnValueExpression expr st =
              (Inr ((SetColumnPosTuple (to_lower (cve_column_name expr)) (snd entry) expr)
                      \<lparr>cve_depth := int (ctx_depth f)\<rparr>), st)) \<and>
         (context_chain st = inner @ f # outer \<and>
          (\<forall>g \<in> set inner. frame_matches (to_lower (cve_column_name expr)) g = []) \<and>
          2 \<le> length (frame_matches (to_lower (cve_column_name expr)) f) \<longrightarrow>
            Visit_ColumnValueExpression expr st =
              (Inl (BINDER_EXCEPTION AmbiguousReference
                      (''Ambiguous column name '' @ to_lower (cve_column_name expr))), st))"
proof (intro conjI impI)
  assume "\<forall>f \<in> set (context_chain st). frame_matches (to_lower (cve_column_name expr)) f = []"
  from unqualified_no_match [OF this] assms
  show "Visit_ColumnValueExpression expr st =
          (Inl (BINDER_EXCEPTION NotFound
                  (''Cannot find column '' @ to_lower (cve_column_name expr))), st)"
    by (simp add: Visit_unqualified)
next
  assume a: "context_chain st = inner @ f # outer \<and>
          (\<forall>g \<in> set inner. frame_matches (to_lower (cve_column_name expr)) g = []) \<and>
          frame_matches (to_lower (cve_column_name expr)) f = [entry]"
  then have "SetColumnPosTuple_unqualified (context_chain st) expr =
      Inr (Some ((SetColumnPosTuple (to_lower (cve_column_name expr)) (snd entry) expr)
                      \<lparr>cve_depth := int (ctx_depth f)\<rparr>))"
    using unqualified_first_frame [of inner expr f outer]
    by (simp add: scan_regular_tables_filter frame_matches_def)
  with a assms
  show "Visit_ColumnValueExpression expr st =
          (Inr ((SetColumnPosTuple (to_lower (cve_column_name expr)) (snd entry) expr)
                  \<lparr>cve_depth := int (ctx_depth f)\<rparr>), st)"
    by (simp add: Visit_unqualified)
next
  assume a: "context_chain st = inner @ f # outer \<and>
          (\<forall>g \<in> set inner. frame_matches (to_lower (cve_column_name expr)) g = []) \<and>
          2 \<le> length (frame_matches (to_lower (cve_column_name expr)) f)"
  then obtain e1 e2 rest where
    "frame_matches (to_lower (cve_column_name expr)) f = e1 # e2 # rest"
    by (cases "frame_matches (to_lower (cve_column_name expr)) f" rule: list.exhaust;
        cases "tl (frame_matches (to_lower (cve_column_name expr)) f)") auto
  with a have "SetColumnPosTuple_unqualified (context_chain st) expr =
      Inl (BINDER_EXCEPTION AmbiguousReference
             (''Ambiguous column name '' @ to_lower (cve_column_name expr)))"
    using unqualified_first_frame [of inner expr f outer]
    by (simp add: scan_regular_tables_filter frame_matches_def)
  with a assms
  show "Visit_ColumnValueExpression expr st =
          (Inl (BINDER_EXCEPTION AmbiguousReference
                  (''Ambiguous column name '' @ to_lower (cve_column_name expr))), st)"
    by (simp add: Visit_unqualified)
qed

theorem C2_unqualified_column_resolution_witness:
  "cve_table_oid (unbound_column [] ''ID'') = INVALID_TABLE_OID \<and>
   cve_table_name (unbound_column [] ''ID'') = [] \<and>
   context_chain orders_in_users_state = [] @ orders_frame # [users_frame] \<and>
   frame_matches (to_lower (cve_column_name (unbound_column [] ''ID''))) orders_frame =
     [(''orders'', 1, 2, [\<lparr>Name = ''id'', Oid = 1, Type = INTEGER\<rparr>])] \<and>
   frame_matches (to_lower (cve_column_name (unbound_column [] ''ID''))) users_frame \<noteq> [] \<and>
   Visit_ColumnValueExpression (unbound_column [] ''ID'') orders_in_users_state =
     (Inr \<lparr>cve_table_name = [], cve_column_name = ''ID'', cve_database_oid = 1,
           cve_table_oid = 2, cve_column_oid = 1, cve_return_value_type = INTEGER,
           cve_depth = 1\<rparr>, orders_in_users_state)"
proof -
  have unbound: "cve_table_oid (unbound_column [] ''ID'') = INVALID_TABLE_OID"
    "cve_table_name (unbound_column [] ''ID'') = []"
    by (simp_all add: unbound_column_def)
  have chain: "context_chain orders_in_users_state = [] @ orders_frame # [users_frame]"
    by (simp add: orders_in_users_state_def)
  have lowered: "to_lower (cve_column_name (unbound_column [] ''ID'')) = ''id''"
    by (simp add: unbound_column_def to_lower_def tolower_def)
  have inner: "frame_matches ''id'' orders_frame =
      [(''orders'', 1, 2, [\<lparr>Name = ''id'', Oid = 1, Type = INTEGER\<rparr>])]"
    by (simp add: frame_matches_def orders_frame_def ColumnInSchema_def to_lower_def tolower_def)
  have outer: "frame_matches ''id'' users_frame \<noteq> []"
    by (simp add: frame_matches_def users_frame_def ColumnInSchema_def to_lower_def tolower_def)
  have bound: "(SetColumnPosTuple ''id''
        (snd (''orders'', 1::nat, 2::nat, [\<lparr>Name = ''id'', Oid = 1, Type = INTEGER\<rparr>]))
        (unbound_column [] ''ID''))\<lparr>cve_depth := int (ctx_depth orders_frame)\<rparr> =
      \<lparr>cve_table_name = [], cve_column_name = ''ID'', cve_database_oid = 1,
           cve_table_oid = 2, cve_column_oid = 1, cve_return_value_type = INTEGER,
           cve_depth = 1\<rparr>"
    by (simp add: SetColumnPosTuple_def GetColumn_def unbound_column_def orders_frame_def
          to_lower_def tolower_def)
  from C2_unqualified_column_resolution [OF unbound, of orders_in_users_state "[]" orders_frame
      "[users_frame]" "(''orders'', 1, 2, [\<lparr>Name = ''id'', Oid = 1, Type = INTEGER\<rparr>])"]
    chain inner
  have "Visit_ColumnValueExpression (unbound_column [] ''ID'') orders_in_users_state =
     (Inr \<lparr>cve_table_name = [], cve_column_name = ''ID'', cve_database_oid = 1,
           cve_table_oid = 2, cve_column_oid = 1, cve_return_value_type = INTEGER,
           cve_depth = 1\<rparr>, orders_in_users_state)"
    by (simp only: lowered bound simp_thms list.set ball_empty)
  with unbound chain inner outer lowered show ?thesis by simp
qed

text \<open>C3.  A qualified column reference looks for a regular binding of the (lower-cased)
  alias from the innermost frame outwards.  The first regular binding decides, whatever
  nested bindings there are: the reference is bound if its schema has the column and
  fails with NotFound otherwise.  Only when no frame has a regular binding of the alias
  is the innermost nested binding of the alias consulted; and when no frame has either,
  the visit fails with InvalidReference.  The lookups in the frames are modelled from the
  spec; their order and the errors are lines 469 to 479.\<close>

theorem C3_qualified_column_resolution:
  assumes "cve_table_oid expr = INVALID_TABLE_OID"
    and "cve_table_name expr \<noteq> []"
  shows "(context_chain st = inner @ f # outer \<and>
          (\<forall>g \<in> set inner.
             lookup_binding (to_lower (cve_table_name expr)) (regular_table_alias_list g) = None) \<and>
          lookup_binding (to_lower (cve_table_name expr)) (regular_table_alias_list f) = Some tuple \<longrightarrow>
            Visit_ColumnValueExpression expr st =
              (if ColumnInSchema (snd (snd tuple)) (to_lower (cve_column_name expr))
               then (Inr (SetColumnPosTuple (to_lower (cve_column_name expr)) tuple
                            (expr\<lparr>cve_depth := int (ctx_depth f)\<rparr>)), st)
               else (Inl (BINDER_EXCEPTION NotFound
                            (''Cannot find column '' @ to_lower (cve_column_name expr))), st))) \<and>
         ((\<forall>g \<in> set (context_chain st).
             lookup_binding (to_lower (cve_table_name expr)) (regular_table_alias_list g) = None) \<and>
          context_chain st = inner @ f # outer \<and>
          (\<forall>g \<in> set inner.
             lookup_binding (to_lower (cve_table_name expr)) (nested_table_alias_list g) = None) \<and>
          lookup_binding (to_lower (cve_table_name expr)) (nested_table_alias_list f) = Some columns \<longrightarrow>
            Visit_ColumnValueExpression expr st =
              (case lookup_binding (to_lower (cve_column_name expr)) columns of
                 Some ty \<Rightarrow>
                   (Inr (expr\<lparr>cve_return_value_type := ty, cve_depth := int (ctx_depth f)\<rparr>), st)
               | None \<Rightarrow>
                   (Inl (BINDER_EXCEPTION NotFound
                           (''Cannot find column '' @ to_lower (cve_column_name expr))), st))) \<and>
         ((\<forall>g \<in> set (context_chain st).
             lookup_binding (to_lower (cve_table_name expr)) (regular_table_alias_list g) = None \<and>
             lookup_binding (to_lower (cve_table_name expr)) (nested_table_alias_list g) = None) \<longrightarrow>
            Visit_ColumnValueExpression expr st =
              (Inl (BINDER_EXCEPTION InvalidReference
                      (''Invalid table reference '' @ cve_table_name expr)), st))"
proof (intro conjI impI)
  assume a: "context_chain st = inner @ f # outer \<and>
          (\<forall>g \<in> set inner.
             lookup_binding (to_lower (cve_table_name expr)) (regular_table_alias_list g) = None) \<and>
          lookup_binding (to_lower (cve_table_name expr)) (regular_table_alias_list f) = Some tuple"
  then have "GetRegularTableObj (context_chain st) (to_lower (cve_table_name expr)) expr =
      Some (tuple, expr\<lparr>cve_depth := int (ctx_depth f)\<rparr>)"
    using regular_lookup_first [of inner "to_lower (cve_table_name expr)" f tuple outer expr]
    by simp
  with a assms
  show "Visit_ColumnValueExpression expr st =
              (if ColumnInSchema (snd (snd tuple)) (to_lower (cve_column_name expr))
               then (Inr (SetColumnPosTuple (to_lower (cve_column_name expr)) tuple
                            (expr\<lparr>cve_depth := int (ctx_depth f)\<rparr>)), st)
               else (Inl (BINDER_EXCEPTION NotFound
                            (''Cannot find column '' @ to_lower (cve_column_name expr))), st))"
    by (simp add: Visit_qualified)
next
  assume a: "(\<forall>g \<in> set (context_chain st).
             lookup_binding (to_lower (cve_table_name expr)) (regular_table_alias_list g) = None) \<and>
          context_chain st = inner @ f # outer \<and>
          (\<forall>g \<in> set inner.
             lookup_binding (to_lower (cve_table_name expr)) (nested_table_alias_list g) = None) \<and>
          lookup_binding (to_lower (cve_table_name expr)) (nested_table_alias_list f) = Some columns"
  then have r: "GetRegularTableObj (context_chain st) (to_lower (cve_table_name expr)) expr = None"
    by (intro regular_lookup_none) simp
  from a have n: "CheckNestedTableColumn (context_chain st) (to_lower (cve_table_name expr))
        (to_lower (cve_column_name expr)) expr =
      (case lookup_binding (to_lower (cve_column_name expr)) columns of
         Some ty \<Rightarrow> Inr (Some (expr\<lparr>cve_return_value_type := ty,
                                      cve_depth := int (ctx_depth f)\<rparr>))
       | None \<Rightarrow> Inl (BINDER_EXCEPTION NotFound
                        (''Cannot find column '' @ to_lower (cve_column_name expr))))"
    using nested_lookup_first [of inner "to_lower (cve_table_name expr)" f columns outer
        "to_lower (cve_column_name expr)" expr]
    by simp
  from a assms r n
  show "Visit_ColumnValueExpression expr st =
              (case lookup_binding (to_lower (cve_column_name expr)) columns of
                 Some ty \<Rightarrow>
                   (Inr (expr\<lparr>cve_return_value_type := ty, cve_depth := int (ctx_depth f)\<rparr>), st)
               | None \<Rightarrow>
                   (Inl (BINDER_EXCEPTION NotFound
                           (''Cannot find column '' @ to_lower (cve_column_name expr))), st))"
    by (simp add: Visit_qualified split: option.splits)
next
  assume a: "\<forall>g \<in> set (context_chain st).
             lookup_binding (to_lower (cve_table_name expr)) (regular_table_alias_list g) = None \<and>
             lookup_binding (to_lower (cve_table_name expr)) (nested_table_alias_list g) = None"
  then have r: "GetRegularTableObj (context_chain st) (to_lower (cve_table_name expr)) expr = None"
    by (intro regular_lookup_none) simp
  from a have n: "CheckNestedTableColumn (context_chain st) (to_lower (cve_table_name expr))
        (to_lower (cve_column_name expr)) expr = Inr None"
    by (intro nested_lookup_none) simp
  from assms r n
  show "Visit_ColumnValueExpression expr st =
              (Inl (BINDER_EXCEPTION InvalidReference
                      (''Invalid table reference '' @ cve_table_name expr)), st)"
    by (simp add: Visit_qualified)
qed

theorem C3_qualified_column_resolution_witness:
  "cve_table_oid (unbound_column ''Users'' ''Name'') = INVALID_TABLE_OID \<and>
   cve_table_name (unbound_column ''Users'' ''Name'') \<noteq> [] \<and>
   context_chain orders_in_users_state = [orders_frame] @ users_frame # [] \<and>
   lookup_binding (to_lower (cve_table_name (unbound_column ''Users'' ''Name'')))
     (regular_table_alias_list orders_frame) = None \<and>
   lookup_binding (to_lower (cve_table_name (unbound_column ''Users'' ''Name'')))
     (regular_table_alias_list users_frame) =
     Some (1, 1, [\<lparr>Name = ''id'', Oid = 1, Type = INTEGER\<rparr>,
                  \<lparr>Name = ''name'', Oid = 2, Type = TEXT\<rparr>]) \<and>
   Visit_ColumnValueExpression (unbound_column ''Users'' ''Name'') orders_in_users_state =
     (Inr \<lparr>cve_table_name = ''Users'', cve_column_name = ''Name'', cve_database_oid = 1,
           cve_table_oid = 1, cve_column_oid = 2, cve_return_value_type = TEXT,
           cve_depth = 0\<rparr>, orders_in_users_state)"
proof -
  have unbound: "cve_table_oid (unbound_column ''Users'' ''Name'') = INVALID_TABLE_OID"
    "cve_table_name (unbound_column ''Users'' ''Name'') \<noteq> []"
    by (simp_all add: unbound_column_def)
  have chain: "context_chain orders_in_users_state = [orders_frame] @ users_frame # []"
    by (simp add: orders_in_users_state_def)
  have lowered: "to_lower (cve_table_name (unbound_column ''Users'' ''Name'')) = ''users''"
    "to_lower (cve_column_name (unbound_column ''Users'' ''Name'')) = ''name''"
    by (simp_all add: unbound_column_def to_lower_def tolower_def)
  have inner: "lookup_binding ''users'' (regular_table_alias_list orders_frame) = None"
    by (simp add: lookup_binding_def orders_frame_def to_lower_def tolower_def)
  have outer: "lookup_binding ''users'' (regular_table_alias_list users_frame) =
     Some (1, 1, [\<lparr>Name = ''id'', Oid = 1, Type = INTEGER\<rparr>,
                  \<lparr>Name = ''name'', Oid = 2, Type = TEXT\<rparr>])"
    by (simp add: lookup_binding_def users_frame_def to_lower_def tolower_def)
  have column: "ColumnInSchema
      (snd (snd (1::nat, 1::nat, [\<lparr>Name = ''id'', Oid = 1, Type = INTEGER\<rparr>,
                                  \<lparr>Name = ''name'', Oid = 2, Type = TEXT\<rparr>]))) ''name''"
    by (simp add: ColumnInSchema_def to_lower_def tolower_def)
  have bound: "SetColumnPosTuple ''name''
        (1, 1, [\<lparr>Name = ''id'', Oid = 1, Type = INTEGER\<rparr>,
                \<lparr>Name = ''name'', Oid = 2, Type = TEXT\<rparr>])
        ((unbound_column ''Users'' ''Name'')\<lparr>cve_depth := int (ctx_depth users_frame)\<rparr>) =
      \<lparr>cve_table_name = ''Users'', cve_column_name = ''Name'', cve_database_oid = 1,
           cve_table_oid = 1, cve_column_oid = 2, cve_return_value_type = TEXT,
           cve_depth = 0\<rparr>"
    by (simp add: SetColumnPosTuple_def GetColumn_def unbound_column_def users_frame_def
          to_lower_def tolower_def)
  from C3_qualified_column_resolution [OF unbound, of orders_in_users_state "[orders_frame]"
      users_frame "[]" "(1, 1, [\<lparr>Name = ''id'', Oid = 1, Type = INTEGER\<rparr>,
                                \<lparr>Name = ''name'', Oid = 2, Type = TEXT\<rparr>])"]
    chain inner outer column bound
  have "Visit_ColumnValueExpression (unbound_column ''Users'' ''Name'') orders_in_users_state =
     (Inr \<lparr>cve_table_name = ''Users'', cve_column_name = ''Name'', cve_database_oid = 1,
           cve_table_oid = 1, cve_column_oid = 2, cve_return_value_type = TEXT,
           cve_depth = 0\<rparr>, orders_in_users_state)"
    by (simp add: lowered)
  with unbound chain inner outer lowered show ?thesis by simp
qed

text \<open>C6.  One foreign key of a CREATE TABLE: the sink table must resolve (NotFound
  otherwise), then both column lists must have the same length (ArityMismatch otherwise),
  then every position is checked in order: the sink column exists in the schema of the
  sink table and the first declared column named like the source column has the type of
  the sink column.  The key passes exactly when every position does, and the first
  position that does not gives the error of the key.\<close>

theorem C6_foreign_key_checks:
  "(GetTableOid accessor (fk_sink_table_name fk) = INVALID_TABLE_OID \<longrightarrow>
      check_foreign_key accessor columns fk =
        Inl (BINDER_EXCEPTION NotFound ''Foreign key referencing non-existing table'')) \<and>
   (GetTableOid accessor (fk_sink_table_name fk) \<noteq> INVALID_TABLE_OID \<and>
    length (fk_sources fk) \<noteq> length (fk_sinks fk) \<longrightarrow>
      check_foreign_key accessor columns fk =
        Inl (BINDER_EXCEPTION ArityMismatch
               ''Number of columns in foreign key does not match number of reference columns'')) \<and>
   (GetTableOid accessor (fk_sink_table_name fk) \<noteq> INVALID_TABLE_OID \<and>
    length (fk_sources fk) = length (fk_sinks fk) \<longrightarrow>
      (check_foreign_key accessor columns fk = Inr () \<longleftrightarrow>
       (\<forall>i < length (fk_sources fk).
          Oid (GetColumn (GetSchema accessor (GetTableOid accessor (fk_sink_table_name fk)))
                 (fk_sinks fk ! i)) \<noteq> INVALID_COLUMN_OID \<and>
          (\<exists>col. find (\<lambda>col. cd_column_name col = fk_sources fk ! i) columns = Some col \<and>
                 cd_value_type col =
                   Type (GetColumn (GetSchema accessor (GetTableOid accessor (fk_sink_table_name fk)))
                           (fk_sinks fk ! i)))))) \<and>
   (GetTableOid accessor (fk_sink_table_name fk) \<noteq> INVALID_TABLE_OID \<and>
    length (fk_sources fk) = length (fk_sinks fk) \<and> i < length (fk_sources fk) \<and>
    (\<forall>j < i. foreign_key_pair_error
                (GetSchema accessor (GetTableOid accessor (fk_sink_table_name fk))) columns
                (fk_sources fk ! j) (fk_sinks fk ! j) = None) \<and>
    foreign_key_pair_error
      (GetSchema accessor (GetTableOid accessor (fk_sink_table_name fk))) columns
      (fk_sources fk ! i) (fk_sinks fk ! i) = Some e \<longrightarrow>
      check_foreign_key accessor columns fk = Inl e)"
proof (intro conjI impI)
  assume "GetTableOid accessor (fk_sink_table_name fk) = INVALID_TABLE_OID"
  then show "check_foreign_key accessor columns fk =
        Inl (BINDER_EXCEPTION NotFound ''Foreign key referencing non-existing table'')"
    by (simp add: check_foreign_key_def)
next
  assume "GetTableOid accessor (fk_sink_table_name fk) \<noteq> INVALID_TABLE_OID \<and>
    length (fk_sources fk) \<noteq> length (fk_sinks fk)"
  then show "check_foreign_key accessor columns fk =
        Inl (BINDER_EXCEPTION ArityMismatch
               ''Number of columns in foreign key does not match number of reference columns'')"
    by (simp add: check_foreign_key_def)
next
  assume a: "GetTableOid accessor (fk_sink_table_name fk) \<noteq> INVALID_TABLE_OID \<and>
    length (fk_sources fk) = length (fk_sinks fk)"
  then have "check_foreign_key accessor columns fk =
      check_foreign_key_columns (GetSchema accessor (GetTableOid accessor (fk_sink_table_name fk)))
        columns (fk_sources fk) (fk_sinks fk)"
    by (simp add: check_foreign_key_def)
  moreover have "\<And>s r sch. foreign_key_pair_error sch columns s r = None \<longleftrightarrow>
      Oid (GetColumn sch r) \<noteq> INVALID_COLUMN_OID \<and>
      (\<exists>col. find (\<lambda>col. cd_column_name col = s) columns = Some col \<and>
             cd_value_type col = Type (GetColumn sch r))"
    by (auto simp: foreign_key_pair_error_def split: option.splits)
  ultimately show "check_foreign_key accessor columns fk = Inr () \<longleftrightarrow>
       (\<forall>i < length (fk_sources fk).
          Oid (GetColumn (GetSchema accessor (GetTableOid accessor (fk_sink_table_name fk)))
                 (fk_sinks fk ! i)) \<noteq> INVALID_COLUMN_OID \<and>
          (\<exists>col. find (\<lambda>col. cd_column_name col = fk_sources fk ! i) columns = Some col \<and>
                 cd_value_type col =
                   Type (GetColumn (GetSchema accessor (GetTableOid accessor (fk_sink_table_name fk)))
                           (fk_sinks fk ! i))))"
    using a check_foreign_key_columns_ok [of "fk_sources fk" "fk_sinks fk"
        "GetSchema accessor (GetTableOid accessor (fk_sink_table_name fk))" columns]
    by simp
next
  assume a: "GetTableOid accessor (fk_sink_table_name fk) \<noteq> INVALID_TABLE_OID \<and>
    length (fk_sources fk) = length (fk_sinks fk) \<and> i < length (fk_sources fk) \<and>
    (\<forall>j < i. foreign_key_pair_error
                (GetSchema accessor (GetTableOid accessor (fk_sink_table_name fk))) columns
                (fk_sources fk ! j) (fk_sinks fk ! j) = None) \<and>
    foreign_key_pair_error
      (GetSchema accessor (GetTableOid accessor (fk_sink_table_name fk))) columns
      (fk_sources fk ! i) (fk_sinks fk ! i) = Some e"
  then have "check_foreign_key accessor columns fk =
      check_foreign_key_columns (GetSchema accessor (GetTableOid accessor (fk_sink_table_name fk)))
        columns (fk_sources fk) (fk_sinks fk)"
    by (simp add: check_foreign_key_def)
  with a check_foreign_key_columns_first_error [of "fk_sources fk" "fk_sinks fk" i
        "GetSchema accessor (GetTableOid accessor (fk_sink_table_name fk))" columns e]
  show "check_foreign_key accessor columns fk = Inl e" by simp
qed

theorem C6_foreign_key_checks_witness:
  "GetTableOid example_catalog (fk_sink_table_name foreign_key_a_u_b) \<noteq> INVALID_TABLE_OID \<and>
   length (fk_sources foreign_key_a_u_b) = length (fk_sinks foreign_key_a_u_b) \<and>
   foreign_key_pair_error
     (GetSchema example_catalog (GetTableOid example_catalog (fk_sink_table_name foreign_key_a_u_b)))
     create_t_a_integer (fk_sources foreign_key_a_u_b ! 0) (fk_sinks foreign_key_a_u_b ! 0) =
     Some (BINDER_EXCEPTION TypeMismatch
             ''Foreign key source column atype does not match reference column type'') \<and>
   check_foreign_key example_catalog create_t_a_integer foreign_key_a_u_b =
     Inl (BINDER_EXCEPTION TypeMismatch
            ''Foreign key source column atype does not match reference column type'')"
proof -
  have facts:
    "GetTableOid example_catalog (fk_sink_table_name foreign_key_a_u_b) \<noteq> INVALID_TABLE_OID"
    "length (fk_sources foreign_key_a_u_b) = length (fk_sinks foreign_key_a_u_b)"
    "foreign_key_pair_error
       (GetSchema example_catalog (GetTableOid example_catalog (fk_sink_table_name foreign_key_a_u_b)))
       create_t_a_integer (fk_sources foreign_key_a_u_b ! 0) (fk_sinks foreign_key_a_u_b ! 0) =
     Some (BINDER_EXCEPTION TypeMismatch
             ''Foreign key source column atype does not match reference column type'')"
    by (simp_all add: example_catalog_def foreign_key_a_u_b_def INVALID_TABLE_OID_def
          foreign_key_pair_error_def create_t_a_integer_def GetColumn_def to_lower_def
          tolower_def INVALID_COLUMN_OID_def)
  from C6_foreign_key_checks [of example_catalog foreign_key_a_u_b create_t_a_integer 0
      "BINDER_EXCEPTION TypeMismatch
         ''Foreign key source column atype does not match reference column type''"] facts
  have "check_foreign_key example_catalog create_t_a_integer foreign_key_a_u_b =
     Inl (BINDER_EXCEPTION TypeMismatch
            ''Foreign key source column atype does not match reference column type'')"
    by (simp add: foreign_key_a_u_b_def)
  with facts show ?thesis by simp
qed

text \<open>C7.  A query-derived table: without an alias the visit fails with MissingAlias and
  leaves the state alone.  With an alias the subselect is visited; when it is bound, the
  frame chain saved at entry is the chain again, and its innermost frame holds a nested
  binding of the alias with the projected columns of the bound subselect; an error of the
  subselect propagates.\<close>

theorem C7_query_derived_table:
  assumes "tr_select node = Some s"
  shows "(tr_alias node = [] \<longrightarrow>
            Visit_TableRef v node st =
              (Inl (BINDER_EXCEPTION MissingAlias ''Alias not found for query derived table''), st)) \<and>
         (tr_alias node \<noteq> [] \<and> Visit_SelectStatement v s st = (Inr s', st') \<and>
          context_chain st = enclosing # upper \<longrightarrow>
            Visit_TableRef v node st =
              (Inr (TableRef (tr_alias node)
                      (TryBindDatabaseName (default_database_name v) (tr_database_name node))
                      (tr_namespace_name node) (tr_table_name node) (Some s') (tr_join node)
                      (tr_list node)),
               st'\<lparr>context_chain :=
                     AddNestedTable (tr_alias node)
                       (map (\<lambda>e. (GetExpressionName v e, GetReturnValueType e)) (sel_columns s'))
                       enclosing # upper\<rparr>) \<and>
            lookup_binding (tr_alias node)
              (nested_table_alias_list
                 (AddNestedTable (tr_alias node)
                    (map (\<lambda>e. (GetExpressionName v e, GetReturnValueType e)) (sel_columns s'))
                    enclosing)) =
              Some (map (\<lambda>e. (GetExpressionName v e, GetReturnValueType e)) (sel_columns s'))) \<and>
         (tr_alias node \<noteq> [] \<and> Visit_SelectStatement v s st = (Inl e, st') \<longrightarrow>
            Visit_TableRef v node st = (Inl e, st'))"
  using assms
  by (cases node) (simp add: bindR_def AddNestedTable_def lookup_store_binding)

theorem C7_query_derived_table_witness:
  "tr_select (derived_table ''s'') = Some select_id_from_users \<and>
   tr_alias (derived_table ''s'') \<noteq> [] \<and>
   Visit_SelectStatement example_visitor select_id_from_users one_frame_state =
     (Inr bound_select_id_from_users, one_frame_state) \<and>
   context_chain one_frame_state = new_BinderContext [] # [] \<and>
   Visit_TableRef example_visitor (derived_table ''s'') one_frame_state =
     (Inr (TableRef ''s'' ''terrier'' [] [] (Some bound_select_id_from_users) None []),
      \<lparr>context_chain =
         [\<lparr>regular_table_alias_list = [],
           nested_table_alias_list = [(''s'', [(''id'', INTEGER)])],
           new_table_list = [], ctx_depth = 0\<rparr>],
       parse_result = []\<rparr>)"
proof -
  have node: "tr_select (derived_table ''s'') = Some select_id_from_users"
    "tr_alias (derived_table ''s'') \<noteq> []"
    by (simp_all add: derived_table_def)
  have chain: "context_chain one_frame_state = new_BinderContext [] # []"
    by (simp add: one_frame_state_def)
  from C7_query_derived_table [OF node(1), of example_visitor one_frame_state
      bound_select_id_from_users one_frame_state "new_BinderContext []" "[]"]
    node(2) Visit_select_id_from_users chain
  have "Visit_TableRef example_visitor (derived_table ''s'') one_frame_state =
     (Inr (TableRef ''s'' ''terrier'' [] [] (Some bound_select_id_from_users) None []),
      \<lparr>context_chain =
         [\<lparr>regular_table_alias_list = [],
           nested_table_alias_list = [(''s'', [(''id'', INTEGER)])],
           new_table_list = [], ctx_depth = 0\<rparr>],
       parse_result = []\<rparr>)"
    by (simp add: derived_table_def example_visitor_def TryBindDatabaseName_def
          bound_select_id_from_users_def AddNestedTable_def new_BinderContext_def
          one_frame_state_def)
  with node Visit_select_id_from_users chain show ?thesis by simp
qed

text \<open>C9, as stated, fails on the foreign keys: the source column of a foreign key is matched
  against the declared columns with \<^verbatim>\<open>==\<close> (line 241), so a declared column \<open>A\<close> is not the
  source column \<open>a\<close>, although the two names differ only in case.\<close>

theorem C9_foreign_key_source_is_case_sensitive:
  "to_lower ''A'' = to_lower ''a'' \<and>
   check_foreign_key example_catalog [declared_column ''a'' TEXT] foreign_key_a_u_b = Inr () \<and>
   check_foreign_key example_catalog [declared_column ''A'' TEXT] foreign_key_a_u_b =
     Inl (BINDER_EXCEPTION NotFound ''Cannot find column a in foreign key source'')"
  by (simp add: check_foreign_key_def example_catalog_def foreign_key_a_u_b_def
        declared_column_def GetColumn_def INVALID_TABLE_OID_def INVALID_COLUMN_OID_def
        to_lower_def tolower_def)

text \<open>C9, amended.  The resolution of a column reference, unqualified or qualified, and the
  existence check of the insert columns do not depend on the letter case of the
  identifiers: a column reference spelled in another case binds to the same database,
  table and column OID, type and depth, or fails with an error of the same kind; insert
  column lists that agree up to case pass or fail the existence check together.  The
  visitor lower-cases both names of a reference (lines 460 to 462); the comparisons made
  inside the binder context are modelled from the spec.\<close>

theorem C9_column_lookups_ignore_case:
  "(to_lower t = to_lower (cve_table_name expr) \<and> to_lower c = to_lower (cve_column_name expr) \<longrightarrow>
      (Visit_ColumnValueExpression expr st = (Inr bound, st') \<longrightarrow>
         Visit_ColumnValueExpression (respell t c expr) st = (Inr (respell t c bound), st')) \<and>
      (Visit_ColumnValueExpression expr st = (Inl (BINDER_EXCEPTION kind msg), st') \<longrightarrow>
         (\<exists>msg'. Visit_ColumnValueExpression (respell t c expr) st =
                   (Inl (BINDER_EXCEPTION kind msg'), st')))) \<and>
   (map to_lower cols' = map to_lower cols \<longrightarrow>
      check_insert_columns schema cols' = check_insert_columns schema cols)"
  using Visit_respelled [of t expr c st bound st' kind msg]
    check_insert_columns_to_lower [of cols' cols schema]
  by blast

theorem C9_column_lookups_ignore_case_witness:
  "to_lower ''USERS'' = to_lower (cve_table_name (unbound_column ''Users'' ''Name'')) \<and>
   to_lower ''name'' = to_lower (cve_column_name (unbound_column ''Users'' ''Name'')) \<and>
   Visit_ColumnValueExpression (unbound_column ''Users'' ''Name'') orders_in_users_state =
     (Inr \<lparr>cve_table_name = ''Users'', cve_column_name = ''Name'', cve_database_oid = 1,
           cve_table_oid = 1, cve_column_oid = 2, cve_return_value_type = TEXT,
           cve_depth = 0\<rparr>, orders_in_users_state) \<and>
   Visit_ColumnValueExpression (unbound_column ''USERS'' ''name'') orders_in_users_state =
     (Inr \<lparr>cve_table_name = ''USERS'', cve_column_name = ''name'', cve_database_oid = 1,
           cve_table_oid = 1, cve_column_oid = 2, cve_return_value_type = TEXT,
           cve_depth = 0\<rparr>, orders_in_users_state)"
proof -
  have same: "to_lower ''USERS'' = to_lower (cve_table_name (unbound_column ''Users'' ''Name''))"
    "to_lower ''name'' = to_lower (cve_column_name (unbound_column ''Users'' ''Name''))"
    by (simp_all add: unbound_column_def to_lower_def tolower_def)
  have before:
    "Visit_ColumnValueExpression (unbound_column ''Users'' ''Name'') orders_in_users_state =
     (Inr \<lparr>cve_table_name = ''Users'', cve_column_name = ''Name'', cve_database_oid = 1,
           cve_table_oid = 1, cve_column_oid = 2, cve_return_value_type = TEXT,
           cve_depth = 0\<rparr>, orders_in_users_state)"
    by (simp add: Visit_ColumnValueExpression_def unbound_column_def orders_in_users_state_def
          orders_frame_def users_frame_def lookup_binding_def ColumnInSchema_def
          SetColumnPosTuple_def GetColumn_def to_lower_def tolower_def Let_def)
  have spelled: "respell ''USERS'' ''name'' (unbound_column ''Users'' ''Name'') =
      unbound_column ''USERS'' ''name''"
    by (simp add: respell_def unbound_column_def)
  from C9_column_lookups_ignore_case [of "''USERS''" "unbound_column ''Users'' ''Name''"
      "''name''" orders_in_users_state _ orders_in_users_state] same before
  have "Visit_ColumnValueExpression (respell ''USERS'' ''name'' (unbound_column ''Users'' ''Name''))
          orders_in_users_state =
        (Inr (respell ''USERS'' ''name''
               \<lparr>cve_table_name = ''Users'', cve_column_name = ''Name'', cve_database_oid = 1,
                 cve_table_oid = 1, cve_column_oid = 2, cve_return_value_type = TEXT,
                 cve_depth = 0\<rparr>), orders_in_users_state)"
    by blast
  then have "Visit_ColumnValueExpression (unbound_column ''USERS'' ''name'') orders_in_users_state =
     (Inr \<lparr>cve_table_name = ''USERS'', cve_column_name = ''name'', cve_database_oid = 1,
           cve_table_oid = 1, cve_column_oid = 2, cve_return_value_type = TEXT,
           cve_depth = 0\<rparr>, orders_in_users_state)"
    by (simp add: spelled) (simp add: respell_def)
  with same before show ?thesis by blast
qed

section \<open>Where the code departs from the claims\<close>

text \<open>C1.  A binding that fails keeps the frames it had pushed: the \<^verbatim>\<open>throw\<close> leaves the
  visit before the lines that delete the frame and reset \<^verbatim>\<open>context_\<close>.  From a visitor
  without frames, an INSERT that names an unknown column (the throw of line 336), a
  derived table without alias (line 102) and a DROP of a missing table (line 400) each
  end with one frame on the chain.\<close>

theorem C1_failed_binding_keeps_its_frames:
  "context_chain initial_state = [] \<and>
   BindNameToNode example_visitor (Insert insert_unknown_column) initial_state =
     (Inl (BINDER_EXCEPTION NotFound ''Insert column does not exist''),
      \<lparr>context_chain = [users_frame], parse_result = []\<rparr>) \<and>
   BindNameToNode example_visitor (Select select_star_from_unnamed_subquery) initial_state =
     (Inl (BINDER_EXCEPTION MissingAlias ''Alias not found for query derived table''),
      \<lparr>context_chain = [new_BinderContext []], parse_result = []\<rparr>) \<and>
   BindNameToNode example_visitor (Drop drop_missing_table) initial_state =
     (Inl (BINDER_EXCEPTION NotFound ''Table does not exist''),
      \<lparr>context_chain = [new_BinderContext []], parse_result = []\<rparr>)"
proof (intro conjI)
  show "context_chain initial_state = []"
    by (simp add: initial_state_def)
next
  have values_form: "ins_select insert_unknown_column = None"
    by (simp add: insert_unknown_column_def)
  have resolves: "GetTableOid (catalog_accessor example_visitor)
      (tr_table_name (ins_table insert_unknown_column)) \<noteq> INVALID_TABLE_OID"
    by (simp add: insert_unknown_column_def table_named_def example_visitor_def
          example_catalog_def INVALID_TABLE_OID_def)
  have frame: "insertion_frame example_visitor insert_unknown_column = users_frame"
    by (simp add: insertion_frame_def users_frame_def insert_unknown_column_def table_named_def
          example_visitor_def example_catalog_def TryBindDatabaseName_def)
  have missing: "check_insert_columns (insertion_schema example_visitor insert_unknown_column)
        (ins_columns insert_unknown_column) =
      Inl (BINDER_EXCEPTION NotFound ''Insert column does not exist'')"
    by (simp add: insertion_schema_def insert_unknown_column_def table_named_def
          example_visitor_def example_catalog_def ColumnInSchema_def to_lower_def tolower_def)
  from Visit_InsertStatement_values [OF values_form resolves, of initial_state]
  show "BindNameToNode example_visitor (Insert insert_unknown_column) initial_state =
     (Inl (BINDER_EXCEPTION NotFound ''Insert column does not exist''),
      \<lparr>context_chain = [users_frame], parse_result = []\<rparr>)"
    by (simp add: BindNameToNode_def bindR_def missing frame initial_state_def)
next
  show "BindNameToNode example_visitor (Select select_star_from_unnamed_subquery) initial_state =
     (Inl (BINDER_EXCEPTION MissingAlias ''Alias not found for query derived table''),
      \<lparr>context_chain = [new_BinderContext []], parse_result = []\<rparr>)"
    by (simp add: BindNameToNode_def bindR_def select_star_from_unnamed_subquery_def
          derived_table_def initial_state_def)
next
  show "BindNameToNode example_visitor (Drop drop_missing_table) initial_state =
     (Inl (BINDER_EXCEPTION NotFound ''Table does not exist''),
      \<lparr>context_chain = [new_BinderContext []], parse_result = []\<rparr>)"
    by (simp add: BindNameToNode_def bindR_def Visit_DropStatement_def check_drop_def
          drop_missing_table_def example_visitor_def example_catalog_def push_context_def
          initial_state_def)
qed

text \<open>C5.  The expected type of a cell is read from the schema column at the position of the
  cell (line 366), also when insert columns are named.  In
  \<^verbatim>\<open>INSERT INTO users (name) VALUES ('x')\<close> the cell goes into \<open>name\<close>, has its type TEXT and
  is no cast, yet it is compared with \<open>id\<close>, the first column of the schema: the coercion is
  called with INTEGER, and its result replaces the cell and is interned, or its error
  ends the binding.\<close>

theorem C5_cell_typed_by_position:
  "ins_columns insert_named_text = [''name''] \<and>
   Type (GetColumn (insertion_schema example_visitor insert_named_text) ''name'') =
     GetReturnValueType (ConstantValueExpression TEXT ''x'') \<and>
   GetExpressionType (ConstantValueExpression TEXT ''x'') \<noteq> OPERATOR_CAST \<and>
   Visit_InsertStatement (example_visitor\<lparr>Convert := conv\<rparr>) insert_named_text initial_state =
     (case conv (ConstantValueExpression TEXT ''x'') INTEGER of
        Inl e \<Rightarrow> (Inl e, \<lparr>context_chain = [users_frame], parse_result = []\<rparr>)
      | Inr converted \<Rightarrow>
          (Inr (insert_named_text
                  \<lparr>ins_table := TableRef [] ''terrier'' [] ''users'' None None [],
                   ins_values := [[converted]]\<rparr>),
           \<lparr>context_chain = [], parse_result = [converted]\<rparr>))"
proof (intro conjI)
  show "ins_columns insert_named_text = [''name'']"
    by (simp add: insert_named_text_def)
next
  show "Type (GetColumn (insertion_schema example_visitor insert_named_text) ''name'') =
     GetReturnValueType (ConstantValueExpression TEXT ''x'')"
    by (simp add: insertion_schema_def insert_named_text_def table_named_def example_visitor_def
          example_catalog_def GetColumn_def to_lower_def tolower_def)
next
  show "GetExpressionType (ConstantValueExpression TEXT ''x'') \<noteq> OPERATOR_CAST"
    by simp
next
  let ?v = "example_visitor\<lparr>Convert := conv\<rparr>"
  have values_form: "ins_select insert_named_text = None"
    by (simp add: insert_named_text_def)
  have resolves: "GetTableOid (catalog_accessor ?v)
      (tr_table_name (ins_table insert_named_text)) \<noteq> INVALID_TABLE_OID"
    by (simp add: insert_named_text_def table_named_def example_visitor_def
          example_catalog_def INVALID_TABLE_OID_def)
  have frame: "insertion_frame ?v insert_named_text = users_frame"
    by (simp add: insertion_frame_def users_frame_def insert_named_text_def table_named_def
          example_visitor_def example_catalog_def TryBindDatabaseName_def)
  have schema: "insertion_schema ?v insert_named_text =
      [\<lparr>Name = ''id'', Oid = 1, Type = INTEGER\<rparr>, \<lparr>Name = ''name'', Oid = 2, Type = TEXT\<rparr>]"
    by (simp add: insertion_schema_def insert_named_text_def table_named_def
          example_visitor_def example_catalog_def)
  have columns: "check_insert_columns
        [\<lparr>Name = ''id'', Oid = 1, Type = INTEGER\<rparr>, \<lparr>Name = ''name'', Oid = 2, Type = TEXT\<rparr>]
        (ins_columns insert_named_text) = Inr ()"
    by (simp add: insert_named_text_def ColumnInSchema_def to_lower_def tolower_def)
  have rows: "bind_insert_rows ?v
        [\<lparr>Name = ''id'', Oid = 1, Type = INTEGER\<rparr>, \<lparr>Name = ''name'', Oid = 2, Type = TEXT\<rparr>]
        (length (ins_columns insert_named_text)) (ins_values insert_named_text)
        (initial_state\<lparr>context_chain := [users_frame]\<rparr>) =
      (case conv (ConstantValueExpression TEXT ''x'') INTEGER of
         Inl e \<Rightarrow> (Inl e, \<lparr>context_chain = [users_frame], parse_result = []\<rparr>)
       | Inr converted \<Rightarrow>
           (Inr [[converted]], \<lparr>context_chain = [users_frame], parse_result = [converted]\<rparr>))"
    by (simp add: insert_named_text_def bind_insert_row_def check_num_values_def
          GetColumnAt_def bindR_def initial_state_def Let_def split: sum.splits)
  note unfolded_visit = Visit_InsertStatement_values [OF values_form resolves, of initial_state,
      unfolded frame schema columns rows]
  show "Visit_InsertStatement ?v insert_named_text initial_state =
     (case conv (ConstantValueExpression TEXT ''x'') INTEGER of
        Inl e \<Rightarrow> (Inl e, \<lparr>context_chain = [users_frame], parse_result = []\<rparr>)
      | Inr converted \<Rightarrow>
          (Inr (insert_named_text
                  \<lparr>ins_table := TableRef [] ''terrier'' [] ''users'' None None [],
                   ins_values := [[converted]]\<rparr>),
           \<lparr>context_chain = [], parse_result = [converted]\<rparr>))"
  proof (cases "conv (ConstantValueExpression TEXT ''x'') INTEGER")
    case (Inl e)
    with unfolded_visit show ?thesis by simp
  next
    case (Inr converted)
    with unfolded_visit show ?thesis
      by (simp add: insert_named_text_def table_named_def example_visitor_def
            TryBindDatabaseName_def)
  qed
qed

end
